theory Spec2Isabelle
  imports Complex_Main "HOL-Library.AList"
begin

section \<open>CALDROS-GTO: signal fusion, EV engine, risk manager, execution engine\<close>

text \<open>
  A shallow embedding of the four core Python modules
  (\<^verbatim>\<open>signal_engine/core.py\<close>, \<^verbatim>\<open>ev_engine/core.py\<close>,
  \<^verbatim>\<open>risk_management/manager.py\<close>, \<^verbatim>\<open>execution_system/executor.py\<close>).

  Conventions of the embedding:
  \<^item> Python floats are modelled as exact reals; a float division by zero is the error
    value \<open>ZeroDivisionError\<close>, as it is for Python's own \<^verbatim>\<open>float\<close> and
    \<^verbatim>\<open>int\<close> (the market features are produced as plain Python floats by
    \<^verbatim>\<open>data_ingestion/manager.py\<close>).
  \<^item> A \<^verbatim>\<open>datetime\<close> is an integer number of microseconds, a
    \<^verbatim>\<open>timedelta\<close> likewise; every call of \<^verbatim>\<open>datetime.utcnow()\<close> reads a
    clock value that is passed in explicitly.
  \<^item> The random draws (\<^verbatim>\<open>np.random.randint\<close>, \<^verbatim>\<open>random.choice\<close>) and the
    accounting collaborator are passed in explicitly.
  \<^item> A raised exception is a value of \<open>py_error\<close>; logging is left out.
\<close>

subsection \<open>Basic types\<close>

datatype py_error = KeyError | ZeroDivisionError | TypeError | ValueError

type_synonym symbol = string
type_synonym time = int
type_synonym pydict = "string \<rightharpoonup> real"

text \<open>\<^verbatim>\<open>d.get(k, default)\<close> and \<^verbatim>\<open>d[k]\<close> on a dictionary of floats.\<close>

definition dict_get :: "pydict \<Rightarrow> string \<Rightarrow> real \<Rightarrow> real" where
  "dict_get d k dflt = (case d k of None \<Rightarrow> dflt | Some v \<Rightarrow> v)"

definition dict_index :: "pydict \<Rightarrow> string \<Rightarrow> py_error + real" where
  "dict_index d k = (case d k of None \<Rightarrow> Inl KeyError | Some v \<Rightarrow> Inr v)"

text \<open>\<^verbatim>\<open>timedelta(minutes=n)\<close> and \<^verbatim>\<open>timedelta(hours=n)\<close> in microseconds.\<close>

definition minutes :: "int \<Rightarrow> time" where
  "minutes n = n * 60000000"

definition hours :: "int \<Rightarrow> time" where
  "hours n = n * 3600000000"

text \<open>\<^verbatim>\<open>np.clip(x, lo, hi)\<close>, which is \<^verbatim>\<open>minimum(maximum(x, lo), hi)\<close>.\<close>

definition clip :: "real \<Rightarrow> real \<Rightarrow> real \<Rightarrow> real" where
  "clip x lo hi = min (max x lo) hi"

text \<open>The six tier names, \<^verbatim>\<open>"T1_explosive"\<close> to \<^verbatim>\<open>"T6_defensive"\<close>.\<close>

datatype tier = T1_explosive | T2_strong | T3_moderate | T4_neutral | T5_scalping | T6_defensive

text \<open>The position of a tier in the ascending order of its EV band.\<close>

fun tier_rank :: "tier \<Rightarrow> nat" where
  "tier_rank T6_defensive = 0"
| "tier_rank T5_scalping = 1"
| "tier_rank T4_neutral = 2"
| "tier_rank T3_moderate = 3"
| "tier_rank T2_strong = 4"
| "tier_rank T1_explosive = 5"

subsection \<open>Signal engine (\<^verbatim>\<open>signal_engine/core.py\<close>)\<close>

record signal_record =
  signal_score :: real
  EV_estimate :: real
  sig_tier :: tier
  sig_components :: "(string \<times> real) list"

record signal_history_entry =
  sh_t :: time
  sh_symbol :: symbol
  sh_score :: real
  sh_ev :: real
  sh_tier :: tier

text \<open>
  \<^verbatim>\<open>SignalEngine._fusion\<close>. The breakdown dictionary is the list of its items in
  insertion order (nine distinct keys). Seven weights are read with
  \<^verbatim>\<open>self.weights[...]\<close>, which raises on a missing weight; the last two with
  \<^verbatim>\<open>self.weights.get(..., 0)\<close>. Every feature is read with \<^verbatim>\<open>feat.get(..., 0)\<close>.
\<close>

definition fusion :: "pydict \<Rightarrow> pydict \<Rightarrow> py_error + ((string \<times> real) list \<times> real)" where
  "fusion weights feat =
    (let breakout = (if dict_get feat ''price_velocity'' 0 > 0.0005 then 1 else 0 :: real) in
     case dict_index weights ''breakout'' of Inl e \<Rightarrow> Inl e | Inr w_breakout \<Rightarrow>
    (let momentum = min (dict_get feat ''volume_acceleration'' 0 / 5) 1 in
     case dict_index weights ''momentum'' of Inl e \<Rightarrow> Inl e | Inr w_momentum \<Rightarrow>
    (let whale = min (dict_get feat ''liquidation_heat'' 0 / 10) 1 in
     case dict_index weights ''whale_flow'' of Inl e \<Rightarrow> Inl e | Inr w_whale \<Rightarrow>
    (let ob_imbalance = min \<bar>dict_get feat ''order_imbalance'' 0\<bar> 1 in
     case dict_index weights ''orderbook_imbalance'' of Inl e \<Rightarrow> Inl e | Inr w_ob \<Rightarrow>
    (let funding_flip = (if dict_get feat ''funding_bias'' 0 > 0 then 0.2 else - 0.2 :: real) in
     case dict_index weights ''funding_flip'' of Inl e \<Rightarrow> Inl e | Inr w_funding \<Rightarrow>
    (let info_signal = dict_get feat ''macro_sentiment_score'' 0 in
     case dict_index weights ''macro_sentiment'' of Inl e \<Rightarrow> Inl e | Inr w_macro \<Rightarrow>
    (let onchain = dict_get feat ''onchain_score'' 0 in
     case dict_index weights ''onchain_flow'' of Inl e \<Rightarrow> Inl e | Inr w_onchain \<Rightarrow>
    (let etf_flow = dict_get feat ''etf_flow_score'' 0;
         social = dict_get feat ''social_sentiment_score'' 0;
         breakdown =
           [(''breakout'', breakout * w_breakout),
            (''momentum'', momentum * w_momentum),
            (''whale_flow'', whale * w_whale),
            (''orderbook_imbalance'', ob_imbalance * w_ob),
            (''funding_flip'', funding_flip * w_funding),
            (''macro_sentiment'', info_signal * w_macro),
            (''onchain_flow'', onchain * w_onchain),
            (''etf_flow'', etf_flow * dict_get weights ''etf_flow'' 0),
            (''social_sentiment'', social * dict_get weights ''social_sentiment'' 0)]
     in Inr (breakdown, sum_list (map snd breakdown))))))))))"

text \<open>\<^verbatim>\<open>SignalEngine._ev_classify\<close>: the coarse EV and its tier.\<close>

definition ev_classify :: "real \<Rightarrow> real \<Rightarrow> pydict \<Rightarrow> real \<times> tier" where
  "ev_classify activation_threshold score feat =
    (let p = 1 / (1 + exp (- 6 * (score - activation_threshold)));
         G = 1.0 + 2.5 * dict_get feat ''volume_acceleration'' 0 / 5;
         L = 1.0 + dict_get feat ''volatility'' 1.0;
         ev = p * G - (1 - p) * L - 0.0016;
         tier =
           (if ev \<ge> 0.35 then T1_explosive
            else if ev \<ge> 0.20 then T2_strong
            else if ev \<ge> 0.10 then T3_moderate
            else if ev \<ge> 0.03 then T4_neutral
            else if ev \<ge> - 0.02 then T5_scalping
            else T6_defensive)
     in (ev, tier))"

text \<open>
  \<^verbatim>\<open>deque(maxlen=n).append(x)\<close>: a full deque drops its leftmost (oldest) item;
  a deque of capacity 0 stays empty.
\<close>

definition deque_append :: "nat \<Rightarrow> 'a list \<Rightarrow> 'a \<Rightarrow> 'a list" where
  "deque_append maxlen xs x =
    (if maxlen = 0 then []
     else if length xs = maxlen then tl xs @ [x]
     else xs @ [x])"

text \<open>
  \<^verbatim>\<open>SignalEngine._compute_signals\<close>: the loop over \<^verbatim>\<open>features.items()\<close>. The
  state threaded through the loop is the local dictionary \<^verbatim>\<open>signals\<close> and the
  engine's history (\<^verbatim>\<open>deque(maxlen=1000)\<close>). An exception of \<open>fusion\<close> leaves the
  history as it is at that point.
\<close>

fun compute_signals_loop ::
  "pydict \<Rightarrow> real \<Rightarrow> time \<Rightarrow> (symbol \<times> pydict) list \<Rightarrow>
   (symbol \<rightharpoonup> signal_record) \<Rightarrow> signal_history_entry list \<Rightarrow>
   (py_error + (symbol \<rightharpoonup> signal_record)) \<times> signal_history_entry list" where
  "compute_signals_loop weights thr now [] signals history = (Inr signals, history)"
| "compute_signals_loop weights thr now ((symbol, feat) # rest) signals history =
    (case fusion weights feat of
       Inl e \<Rightarrow> (Inl e, history)
     | Inr (score_breakdown, weighted_score) \<Rightarrow>
         (case ev_classify thr weighted_score feat of (ev, tier) \<Rightarrow>
            compute_signals_loop weights thr now rest
              (signals(symbol \<mapsto>
                 \<lparr>signal_score = weighted_score, EV_estimate = ev,
                  sig_tier = tier, sig_components = score_breakdown\<rparr>))
              (deque_append 1000 history
                 \<lparr>sh_t = now, sh_symbol = symbol, sh_score = weighted_score,
                  sh_ev = ev, sh_tier = tier\<rparr>)))"

definition compute_signals ::
  "pydict \<Rightarrow> real \<Rightarrow> time \<Rightarrow> (symbol \<times> pydict) list \<Rightarrow> signal_history_entry list \<Rightarrow>
   (py_error + (symbol \<rightharpoonup> signal_record)) \<times> signal_history_entry list" where
  "compute_signals weights thr now features history =
     compute_signals_loop weights thr now features Map.empty history"

text \<open>\<^verbatim>\<open>SignalEngine.get_signal\<close>: \<^verbatim>\<open>self.signals.get(symbol, {})\<close>; the empty
  dictionary is \<open>None\<close>.\<close>

definition get_signal :: "(symbol \<rightharpoonup> signal_record) \<Rightarrow> symbol \<Rightarrow> signal_record option" where
  "get_signal signals symbol = signals symbol"

subsection \<open>EV engine (\<^verbatim>\<open>ev_engine/core.py\<close>)\<close>

text \<open>The configuration values the modules read from \<^verbatim>\<open>production.json\<close>.\<close>

record config =
  beta_alpha :: real
  beta_beta :: real
  base_threshold :: real
  trade_window :: int
  weights :: pydict
  activation_threshold :: real
  daily_drawdown_limit_pct :: real
  margin_health_threshold :: real

record trade_history_entry =
  th_symbol :: symbol
  th_p :: real
  th_G :: real
  th_L :: real
  th_EV :: real
  th_tier :: tier
  th_win :: bool

text \<open>
  The dictionary returned by \<^verbatim>\<open>calculate_ev_for_symbol\<close>. Its nine keys are fields;
  \<open>other_keys\<close> holds whatever further keys a dictionary passed as
  \<^verbatim>\<open>ev_result\<close> may carry (the EV engine sets none).
\<close>

record ev_result =
  res_symbol :: symbol
  p_win :: real
  res_G :: real
  res_L :: real
  res_EV :: real
  res_tier :: tier
  kelly_position :: real
  recommended_leverage :: int
  components :: "(string \<times> real) list"
  other_keys :: pydict

text \<open>\<^verbatim>\<open>EVEngine._estimate_probability\<close>; the posterior mean is a float division.\<close>

definition estimate_probability ::
  "config \<Rightarrow> trade_history_entry list \<Rightarrow> symbol \<Rightarrow> real \<Rightarrow> pydict \<Rightarrow> py_error + real" where
  "estimate_probability cfg history symbol score state =
    (let a0 = beta_alpha cfg; b0 = beta_beta cfg;
         past_wins = length (filter (\<lambda>t. th_symbol t = symbol \<and> th_win t) history);
         past_losses = length (filter (\<lambda>t. th_symbol t = symbol \<and> \<not> th_win t) history);
         a_post = a0 + real past_wins + (score * 10);
         b_post = b0 + real past_losses + (1 - score) * 10
     in if a_post + b_post = 0 then Inl ZeroDivisionError
        else
          let p = a_post / (a_post + b_post);
              vol_penalty = exp (- dict_get state ''volatility'' 0.5);
              trend_boost = 1 + 0.15 * dict_get state ''trend_consistency'' 0.0
          in Inr (clip (p * (vol_penalty * trend_boost)) 0.01 0.99))"

text \<open>\<^verbatim>\<open>EVEngine._estimate_gain\<close>.\<close>

definition estimate_gain :: "pydict \<Rightarrow> real" where
  "estimate_gain state =
    (let atr = dict_get state ''ATR'' 0.01;
         momentum = dict_get state ''momentum'' 1.0;
         liquidity = dict_get state ''liquidity_score'' 1.0
     in clip (1 + 3 * atr * momentum * liquidity) 0.5 5.0)"

text \<open>\<^verbatim>\<open>EVEngine._estimate_loss\<close>; \<^verbatim>\<open>1 / depth\<close> is evaluated as it stands.\<close>

definition estimate_loss :: "pydict \<Rightarrow> py_error + real" where
  "estimate_loss state =
    (let vol = dict_get state ''volatility'' 1.0;
         depth = dict_get state ''depth_score'' 1.0;
         slippage = dict_get state ''slippage'' 0.01
     in if depth = 0 then Inl ZeroDivisionError
        else Inr (clip (1 + 2 * vol * (1 / depth) + slippage * 10) 0.5 5.0))"

text \<open>\<^verbatim>\<open>EVEngine._estimate_fees\<close>.\<close>

definition estimate_fees :: "pydict \<Rightarrow> real" where
  "estimate_fees state =
    (let base_fee = 0.0016;
         funding = \<bar>dict_get state ''funding_rate'' 0.0\<bar> * 10;
         slippage_cost = dict_get state ''slippage'' 0.01 * 2
     in base_fee + funding + slippage_cost)"

text \<open>\<^verbatim>\<open>EVEngine._classify_ev\<close>.\<close>

definition classify_ev :: "real \<Rightarrow> tier" where
  "classify_ev ev =
    (if ev \<ge> 0.35 then T1_explosive
     else if ev \<ge> 0.20 then T2_strong
     else if ev \<ge> 0.10 then T3_moderate
     else if ev \<ge> 0.03 then T4_neutral
     else if ev \<ge> - 0.02 then T5_scalping
     else T6_defensive)"

text \<open>
  \<^verbatim>\<open>np.random.randint(lo, hi)\<close> draws an integer of \<open>[lo, hi)\<close>; the draw is the
  natural number \<open>d\<close> reduced into that range.
\<close>

definition randint :: "nat \<Rightarrow> int \<Rightarrow> int \<Rightarrow> int" where
  "randint d lo hi = lo + int d mod (hi - lo)"

text \<open>\<^verbatim>\<open>EVEngine._recommend_leverage\<close>.\<close>

definition recommend_leverage :: "nat \<Rightarrow> real \<Rightarrow> int" where
  "recommend_leverage d ev =
    (if ev \<ge> 0.35 then randint d 90 120
     else if ev \<ge> 0.20 then randint d 50 85
     else if ev \<ge> 0.10 then randint d 20 50
     else if ev \<ge> 0.03 then randint d 10 30
     else if ev \<ge> - 0.02 then randint d 5 15
     else randint d 1 5)"

text \<open>
  \<^verbatim>\<open>EVEngine._dynamic_kelly\<close>. The local \<^verbatim>\<open>edge\<close> is computed and not used. The
  division by \<^verbatim>\<open>b\<close> raises for \<^verbatim>\<open>b == 0\<close> (that is, \<^verbatim>\<open>G == 0\<close>).
\<close>

definition dynamic_kelly :: "real \<Rightarrow> real \<Rightarrow> real \<Rightarrow> py_error + real" where
  "dynamic_kelly p G L =
    (let edge = (p * (G + 1)) - (1 - p) * L;
         b = (if L \<noteq> 0 then G / L else 1)
     in if b = 0 then Inl ZeroDivisionError
        else Inr (clip ((p * (b + 1) - 1) / b) 0.0 0.25))"

text \<open>\<^verbatim>\<open>EVEngine._record_history\<close>: append, then \<^verbatim>\<open>pop(0)\<close> if the window is exceeded.\<close>

definition record_history ::
  "int \<Rightarrow> trade_history_entry list \<Rightarrow> symbol \<Rightarrow> real \<Rightarrow> real \<Rightarrow> real \<Rightarrow> real \<Rightarrow> tier \<Rightarrow>
   trade_history_entry list" where
  "record_history window history symbol p G L ev tier =
    (let h = history @
           [\<lparr>th_symbol = symbol, th_p = p, th_G = G, th_L = L, th_EV = ev,
             th_tier = tier, th_win = (ev > 0)\<rparr>]
     in if int (length h) > window then tl h else h)"

text \<open>
  \<^verbatim>\<open>EVEngine.calculate_ev_for_symbol\<close>. The result \<open>None\<close> is the empty dictionary
  returned when the symbol has no signal. The engine's history is passed in and
  returned; every exception is raised before the history is touched.
\<close>

definition calculate_ev_for_symbol ::
  "config \<Rightarrow> (symbol \<rightharpoonup> signal_record) \<Rightarrow> trade_history_entry list \<Rightarrow> nat \<Rightarrow>
   symbol \<Rightarrow> pydict \<Rightarrow> py_error + (ev_result option \<times> trade_history_entry list)" where
  "calculate_ev_for_symbol cfg signals history d symbol market_state =
    (case get_signal signals symbol of
       None \<Rightarrow> Inr (None, history)
     | Some signal_data \<Rightarrow>
        (let score = signal_score signal_data;
             comps = sig_components signal_data
         in case estimate_probability cfg history symbol score market_state of
              Inl e \<Rightarrow> Inl e
            | Inr p \<Rightarrow>
               (let G = estimate_gain market_state
                in case estimate_loss market_state of
                     Inl e \<Rightarrow> Inl e
                   | Inr L \<Rightarrow>
                      (let ev = p * G - (1 - p) * L - estimate_fees market_state;
                           tier = classify_ev ev;
                           optimal_leverage = recommend_leverage d ev
                       in case dynamic_kelly p G L of
                            Inl e \<Rightarrow> Inl e
                          | Inr position_size \<Rightarrow>
                              Inr (Some \<lparr>res_symbol = symbol, p_win = p, res_G = G, res_L = L,
                                         res_EV = ev, res_tier = tier,
                                         kelly_position = position_size,
                                         recommended_leverage = optimal_leverage,
                                         components = comps, other_keys = Map.empty\<rparr>,
                                   record_history (trade_window cfg) history symbol
                                     p G L ev tier)))))"

subsection \<open>Risk manager (\<^verbatim>\<open>risk_management/manager.py\<close>)\<close>

text \<open>The accounting collaborator, read through its four getters.\<close>

record accounting =
  equity :: real
  equity_peak :: real
  acct_margin_ratio :: real
  available_balance :: real

record risk_state =
  drawdown_history :: "real list"
  loss_streak :: int
  circuit_breaker_active :: bool
  last_trigger_time :: "time option"
  max_daily_loss :: real

text \<open>The state set up by \<^verbatim>\<open>RiskManager.__init__\<close>.\<close>

definition risk_init :: risk_state where
  "risk_init = \<lparr>drawdown_history = [], loss_streak = 0, circuit_breaker_active = False,
                last_trigger_time = None, max_daily_loss = 0.0\<rparr>"

text \<open>\<^verbatim>\<open>RiskManager._trigger_circuit_breaker\<close>.\<close>

definition trigger_circuit_breaker :: "time \<Rightarrow> risk_state \<Rightarrow> risk_state" where
  "trigger_circuit_breaker now r =
     r\<lparr>circuit_breaker_active := True, last_trigger_time := Some now\<rparr>"

text \<open>\<^verbatim>\<open>RiskManager._check_drawdown\<close>.\<close>

definition check_drawdown :: "config \<Rightarrow> accounting \<Rightarrow> time \<Rightarrow> risk_state \<Rightarrow> bool \<times> risk_state" where
  "check_drawdown cfg acct now r =
    (let eq = equity acct;
         peak = equity_peak acct;
         drawdown = (if peak > 0 then (peak - eq) / peak else 0)
     in if drawdown > daily_drawdown_limit_pct cfg
        then (False, trigger_circuit_breaker now r)
        else (True, r))"

text \<open>\<^verbatim>\<open>RiskManager._check_margin_health\<close>.\<close>

definition check_margin_health ::
  "config \<Rightarrow> accounting \<Rightarrow> time \<Rightarrow> risk_state \<Rightarrow> bool \<times> risk_state" where
  "check_margin_health cfg acct now r =
    (let margin_ratio = acct_margin_ratio acct;
         threshold = margin_health_threshold cfg
     in if margin_ratio < threshold
        then (False, trigger_circuit_breaker now r)
        else (True, r))"

text \<open>\<^verbatim>\<open>RiskManager.pre_trade_check\<close>.\<close>

definition pre_trade_check ::
  "config \<Rightarrow> accounting \<Rightarrow> time \<Rightarrow> real \<Rightarrow> risk_state \<Rightarrow> bool \<times> risk_state" where
  "pre_trade_check cfg acct now ev r =
    (if circuit_breaker_active r then (False, r)
     else if ev < - 0.05 then (False, r)
     else case check_drawdown cfg acct now r of
            (False, r1) \<Rightarrow> (False, r1)
          | (True, r1) \<Rightarrow>
              (case check_margin_health cfg acct now r1 of
                 (False, r2) \<Rightarrow> (False, r2)
               | (True, r2) \<Rightarrow> (True, r2)))"

text \<open>
  \<^verbatim>\<open>RiskManager.check_circuit_breaker\<close>. Subtracting \<^verbatim>\<open>None\<close> from a datetime
  raises \<^verbatim>\<open>TypeError\<close>.
\<close>

definition check_circuit_breaker :: "time \<Rightarrow> risk_state \<Rightarrow> py_error + (bool \<times> risk_state)" where
  "check_circuit_breaker now r =
    (if \<not> circuit_breaker_active r then Inr (False, r)
     else let cooldown = minutes 180
          in case last_trigger_time r of
               None \<Rightarrow> Inl TypeError
             | Some t0 \<Rightarrow>
                 if now - t0 > cooldown
                 then Inr (False, r\<lparr>circuit_breaker_active := False, loss_streak := 0\<rparr>)
                 else Inr (True, r))"

text \<open>\<^verbatim>\<open>RiskManager.register_trade_result\<close>.\<close>

definition register_trade_result :: "time \<Rightarrow> real \<Rightarrow> risk_state \<Rightarrow> risk_state" where
  "register_trade_result now pnl r =
    (if pnl < 0 then
       let r1 = r\<lparr>loss_streak := loss_streak r + 1,
                  drawdown_history := drawdown_history r @ [pnl]\<rparr>
       in if loss_streak r1 \<ge> 3 then trigger_circuit_breaker now r1 else r1
     else r\<lparr>loss_streak := 0\<rparr>)"

text \<open>\<^verbatim>\<open>RiskManager._risk_heat\<close>; \<^verbatim>\<open>xs[-10:]\<close> is the last ten items (or all).\<close>

definition risk_heat :: "risk_state \<Rightarrow> py_error + real" where
  "risk_heat r =
    (if drawdown_history r = [] then Inr 0.0
     else let last10 = drop (length (drawdown_history r) - 10) (drawdown_history r)
          in if length last10 = 0 then Inl ZeroDivisionError
             else let avg_loss = \<bar>sum_list last10 / real (length last10)\<bar>
                  in Inr (min (avg_loss / 0.05) 1.0))"

text \<open>\<^verbatim>\<open>RiskManager.dynamic_stop_loss\<close>.\<close>

definition dynamic_stop_loss :: "risk_state \<Rightarrow> real \<Rightarrow> real \<Rightarrow> real \<Rightarrow> py_error + real" where
  "dynamic_stop_loss r current_price entry_price volatility =
    (let base_stop = entry_price - 2 * volatility
     in case risk_heat r of
          Inl e \<Rightarrow> Inl e
        | Inr heat \<Rightarrow> Inr (base_stop * (1 + heat)))"

subsection \<open>Execution engine (\<^verbatim>\<open>execution_system/executor.py\<close>)\<close>

datatype side = BUY | SELL

record position =
  entry_time :: time
  entry_price :: real
  leverage :: int
  notional :: real
  ev_entry :: real
  direction :: side
  is_open :: bool

record order =
  ord_symbol :: symbol
  ord_side :: side
  ord_size :: real
  ord_leverage :: int
  ord_timestamp :: time

text \<open>
  What one pass of the loop body of \<^verbatim>\<open>execute_cycle\<close> reads from outside the
  engines: the clock, the accounting collaborator, the outcome of
  \<^verbatim>\<open>random.choice([True, False])\<close> in \<^verbatim>\<open>_position_profitable\<close>, and the draw
  of \<^verbatim>\<open>np.random.randint\<close>. The clock is read once per pass.
\<close>

record env =
  now :: time
  acct :: accounting
  coin :: bool
  lev_draw :: nat

text \<open>
  The mutable state of the engines: the signal table and the EV history, the risk
  manager's fields, and the execution engine's \<^verbatim>\<open>active_positions\<close> (a dictionary
  that is iterated, hence the list of its items in insertion order),
  \<^verbatim>\<open>cooldowns\<close> and \<^verbatim>\<open>trade_log\<close>.
\<close>

record system =
  signals :: "symbol \<rightharpoonup> signal_record"
  ev_history :: "trade_history_entry list"
  risk :: risk_state
  active_positions :: "(symbol \<times> position) list"
  cooldowns :: "symbol \<rightharpoonup> time"
  trade_log :: "order list"

text \<open>\<^verbatim>\<open>ExecutionEngine._mock_order\<close>.\<close>

definition mock_order :: "time \<Rightarrow> symbol \<Rightarrow> side \<Rightarrow> real \<Rightarrow> int \<Rightarrow> order" where
  "mock_order t symbol sd sz lev =
     \<lparr>ord_symbol = symbol, ord_side = sd, ord_size = sz, ord_leverage = lev,
      ord_timestamp = t\<rparr>"

text \<open>\<^verbatim>\<open>ExecutionEngine._position_profitable\<close>: the coin of the environment.\<close>

definition position_profitable :: "env \<Rightarrow> symbol \<Rightarrow> bool" where
  "position_profitable e symbol = coin e"

text \<open>
  \<^verbatim>\<open>ExecutionEngine._enter_position\<close>. Assigning to a dictionary key keeps the place
  of an existing key and appends a new one, as \<open>AList.update\<close> does.
\<close>

definition enter_position :: "env \<Rightarrow> system \<Rightarrow> symbol \<Rightarrow> ev_result \<Rightarrow> int \<Rightarrow> real \<Rightarrow> system" where
  "enter_position e s symbol evr lev position_size =
    (let balance = available_balance (acct e);
         order_notional = balance * position_size * real_of_int lev;
         ord = mock_order (now e) symbol (if p_win evr > 0.5 then BUY else SELL)
                 order_notional lev
     in s\<lparr>active_positions :=
             AList.update symbol
               \<lparr>entry_time = now e,
                entry_price = (case map_of (components evr) ''price'' of
                                 None \<Rightarrow> 0 | Some v \<Rightarrow> v),
                leverage = lev,
                notional = order_notional,
                ev_entry = res_EV evr,
                direction = ord_side ord,
                is_open = True\<rparr>
               (active_positions s),
           trade_log := trade_log s @ [ord]\<rparr>)"

text \<open>
  \<^verbatim>\<open>ExecutionEngine._exit_position\<close>: \<^verbatim>\<open>pop(symbol, None)\<close>, and the cooldown if
  there was a position. The reason is only logged.
\<close>

definition exit_position :: "env \<Rightarrow> system \<Rightarrow> symbol \<Rightarrow> string \<Rightarrow> system" where
  "exit_position e s symbol reason =
    (case map_of (active_positions s) symbol of
       None \<Rightarrow> s
     | Some pos \<Rightarrow>
         s\<lparr>active_positions := AList.delete symbol (active_positions s),
           cooldowns := (cooldowns s)(symbol \<mapsto> now e + minutes 5)\<rparr>)"

text \<open>
  \<^verbatim>\<open>ExecutionEngine._maybe_exit\<close>: four tests in sequence, each on the position
  read at the start. The coin is only thrown when the position is older than 15
  minutes.
\<close>

definition maybe_exit :: "env \<Rightarrow> system \<Rightarrow> symbol \<Rightarrow> ev_result \<Rightarrow> py_error + system" where
  "maybe_exit e s symbol evr =
    (case map_of (active_positions s) symbol of
       None \<Rightarrow> Inl KeyError
     | Some pos \<Rightarrow>
         let current_ev = res_EV evr;
             time_held = now e - entry_time pos;
             s1 = (if current_ev < 0 \<or> p_win evr < 0.5
                   then exit_position e s symbol ''Signal invalid'' else s);
             max_holding = hours 24;
             s2 = (if time_held > max_holding
                   then exit_position e s1 symbol ''Time exceeded'' else s1);
             s3 = (if time_held > minutes 15 \<and> \<not> position_profitable e symbol
                   then exit_position e s2 symbol ''No profit after 15m'' else s2);
             s4 = (if current_ev < 0.5 * ev_entry pos
                   then exit_position e s3 symbol ''EV decayed'' else s3)
         in Inr s4)"

text \<open>Python's \<^verbatim>\<open>max\<close> of an iterable of floats; it raises on an empty one.\<close>

definition py_max :: "real list \<Rightarrow> py_error + real" where
  "py_max xs = (case xs of [] \<Rightarrow> Inl ValueError | x # rest \<Rightarrow> Inr (fold max rest x))"

text \<open>
  \<^verbatim>\<open>ExecutionEngine._maybe_rotate\<close>. The position is looked up (and not used
  afterwards); the first comparison reads the key \<^verbatim>\<open>"ev_entry"\<close> of
  \<^verbatim>\<open>ev_result\<close>, which is not one of the nine keys of an EV result.
\<close>

definition maybe_rotate :: "env \<Rightarrow> system \<Rightarrow> symbol \<Rightarrow> ev_result \<Rightarrow> py_error + system" where
  "maybe_rotate e s symbol evr =
    (case map_of (active_positions s) symbol of
       None \<Rightarrow> Inl KeyError
     | Some pos \<Rightarrow>
        (let current_ev = res_EV evr
         in case dict_index (other_keys evr) ''ev_entry'' of
              Inl err \<Rightarrow> Inl err
            | Inr own_entry \<Rightarrow>
                if current_ev < own_entry then Inr s
                else
                  (case py_max (map (\<lambda>kv. ev_entry (snd kv)) (active_positions s)) of
                     Inl err \<Rightarrow> Inl err
                   | Inr m \<Rightarrow>
                       if current_ev < 0.8 * m then Inr s
                       else Inr (enter_position e
                                   (exit_position e s symbol ''Rotated for higher EV'')
                                   symbol evr (recommended_leverage evr)
                                   (kelly_position evr)))))"

text \<open>\<^verbatim>\<open>ExecutionEngine._check_risk\<close>; the query may reset the breaker.\<close>

definition check_risk :: "env \<Rightarrow> risk_state \<Rightarrow> symbol \<Rightarrow> real \<Rightarrow> py_error + (bool \<times> risk_state)" where
  "check_risk e r symbol ev =
    (case check_circuit_breaker (now e) r of
       Inl err \<Rightarrow> Inl err
     | Inr (tripped, r1) \<Rightarrow>
         if tripped then Inr (False, r1)
         else if ev < - 0.05 then Inr (False, r1)
         else Inr (True, r1))"

text \<open>\<^verbatim>\<open>ExecutionEngine._in_cooldown\<close>.\<close>

definition in_cooldown :: "env \<Rightarrow> system \<Rightarrow> symbol \<Rightarrow> bool" where
  "in_cooldown e s symbol =
    (case cooldowns s symbol of None \<Rightarrow> False | Some until \<Rightarrow> now e < until)"

text \<open>
  One pass of the loop body of \<^verbatim>\<open>ExecutionEngine.execute_cycle\<close> for one item of the
  snapshot. \<open>Inr\<close> is the state at the end of the pass (also after \<^verbatim>\<open>continue\<close>);
  \<open>Inl\<close> is an exception together with the state as it was mutated up to the raise.
\<close>

definition execute_symbol ::
  "config \<Rightarrow> env \<Rightarrow> system \<Rightarrow> symbol \<Rightarrow> pydict \<Rightarrow> (py_error \<times> system) + system" where
  "execute_symbol cfg e s symbol state =
    (case calculate_ev_for_symbol cfg (signals s) (ev_history s) (lev_draw e) symbol state of
       Inl err \<Rightarrow> Inl (err, s)
     | Inr (None, h) \<Rightarrow> Inr (s\<lparr>ev_history := h\<rparr>)
     | Inr (Some ev_res, h) \<Rightarrow>
        (let s1 = s\<lparr>ev_history := h\<rparr>;
             ev = res_EV ev_res;
             lev = recommended_leverage ev_res;
             position_size = kelly_position ev_res
         in case check_risk e (risk s1) symbol ev of
              Inl err \<Rightarrow> Inl (err, s1)
            | Inr (ok, r1) \<Rightarrow>
               (let s2 = s1\<lparr>risk := r1\<rparr>
                in if \<not> ok then Inr s2
                   else if in_cooldown e s2 symbol then Inr s2
                   else if map_of (active_positions s2) symbol \<noteq> None then
                     (case maybe_exit e s2 symbol ev_res of
                        Inl err \<Rightarrow> Inl (err, s2)
                      | Inr s3 \<Rightarrow>
                         (case maybe_rotate e s3 symbol ev_res of
                            Inl err \<Rightarrow> Inl (err, s3)
                          | Inr s4 \<Rightarrow> Inr s4))
                   else if ev > base_threshold cfg
                   then Inr (enter_position e s2 symbol ev_res lev position_size)
                   else Inr s2)))"

text \<open>
  \<^verbatim>\<open>ExecutionEngine.execute_cycle\<close>: the loop over \<^verbatim>\<open>market_snapshot.items()\<close>, each
  item with the environment of its pass. An exception ends the loop.
\<close>

fun execute_cycle ::
  "config \<Rightarrow> system \<Rightarrow> (symbol \<times> pydict \<times> env) list \<Rightarrow> (py_error \<times> system) + system" where
  "execute_cycle cfg s [] = Inr s"
| "execute_cycle cfg s ((symbol, state, e) # rest) =
    (case execute_symbol cfg e s symbol state of
       Inl err \<Rightarrow> Inl err
     | Inr s1 \<Rightarrow> execute_cycle cfg s1 rest)"

subsection \<open>Callers and inputs used in the statements below\<close>

text \<open>
  A caller that queries the breaker at each time of a list, in order, and collects the
  answers.
\<close>

fun check_all :: "time list \<Rightarrow> risk_state \<Rightarrow> py_error + (bool list \<times> risk_state)" where
  "check_all [] r = Inr ([], r)"
| "check_all (t # ts) r =
    (case check_circuit_breaker t r of
       Inl e \<Rightarrow> Inl e
     | Inr (b, r1) \<Rightarrow>
        (case check_all ts r1 of
           Inl e \<Rightarrow> Inl e
         | Inr (bs, r2) \<Rightarrow> Inr (b # bs, r2)))"

text \<open>The seven weights that \<open>fusion\<close> reads by indexing.\<close>

definition required_weights :: "string list" where
  "required_weights =
     [''breakout'', ''momentum'', ''whale_flow'', ''orderbook_imbalance'',
      ''funding_flip'', ''macro_sentiment'', ''onchain_flow'']"

text \<open>A weight table with all nine components, and a configuration around it.\<close>

definition example_weights :: pydict where
  "example_weights =
     [''breakout'' \<mapsto> 0.2, ''momentum'' \<mapsto> 0.15, ''whale_flow'' \<mapsto> 0.15,
      ''orderbook_imbalance'' \<mapsto> 0.1, ''funding_flip'' \<mapsto> 0.1,
      ''macro_sentiment'' \<mapsto> 0.1, ''onchain_flow'' \<mapsto> 0.1,
      ''etf_flow'' \<mapsto> 0.05, ''social_sentiment'' \<mapsto> 0.05]"

definition example_config :: config where
  "example_config =
     \<lparr>beta_alpha = 1, beta_beta = 1, base_threshold = 0.05, trade_window = 3,
      weights = example_weights, activation_threshold = 0.5,
      daily_drawdown_limit_pct = 0.1, margin_health_threshold = 0.2\<rparr>"

text \<open>A signal table with one symbol, as \<open>compute_signals\<close> would leave it.\<close>

definition example_signal :: signal_record where
  "example_signal =
     \<lparr>signal_score = 0.9, EV_estimate = 0.5, sig_tier = T1_explosive, sig_components = []\<rparr>"

definition example_signals :: "symbol \<rightharpoonup> signal_record" where
  "example_signals = [''BTCUSDT'' \<mapsto> example_signal]"

text \<open>A history that fills the window of \<open>example_config\<close> (three entries).\<close>

definition example_entry :: "real \<Rightarrow> trade_history_entry" where
  "example_entry x =
     \<lparr>th_symbol = ''BTCUSDT'', th_p = 0.5, th_G = 1, th_L = 1, th_EV = x,
      th_tier = classify_ev x, th_win = (x > 0)\<rparr>"

definition example_history :: "trade_history_entry list" where
  "example_history = [example_entry 0.1, example_entry (- 0.1), example_entry 0.2]"

text \<open>The state a pass ends in, whether it returned or raised.\<close>

definition final_state :: "(py_error \<times> system) + system \<Rightarrow> system" where
  "final_state res = (case res of Inl (err, s) \<Rightarrow> s | Inr s \<Rightarrow> s)"

text \<open>
  Callers that run operations one after another on the engines' histories: EV
  evaluations (a call that raises leaves the history as it is), whole execution
  cycles (a cycle that raises leaves the state as mutated up to the raise), and the
  signal engine's loop \<^verbatim>\<open>run\<close>, which logs an exception of
  \<^verbatim>\<open>_compute_signals\<close> and goes on. Each call brings its own arguments.
\<close>

fun evaluate_all ::
  "config \<Rightarrow> trade_history_entry list \<Rightarrow>
   ((symbol \<rightharpoonup> signal_record) \<times> nat \<times> symbol \<times> pydict) list \<Rightarrow>
   trade_history_entry list" where
  "evaluate_all cfg h [] = h"
| "evaluate_all cfg h ((sigs, d, symbol, state) # rest) =
    (case calculate_ev_for_symbol cfg sigs h d symbol state of
       Inl e \<Rightarrow> evaluate_all cfg h rest
     | Inr (res, h1) \<Rightarrow> evaluate_all cfg h1 rest)"

fun run_cycles :: "config \<Rightarrow> system \<Rightarrow> (symbol \<times> pydict \<times> env) list list \<Rightarrow> system" where
  "run_cycles cfg s [] = s"
| "run_cycles cfg s (snapshot # rest) =
     run_cycles cfg (final_state (execute_cycle cfg s snapshot)) rest"

fun run_signal_engine ::
  "pydict \<Rightarrow> real \<Rightarrow> signal_history_entry list \<Rightarrow>
   (time \<times> (symbol \<times> pydict) list) list \<Rightarrow> signal_history_entry list" where
  "run_signal_engine w thr sh [] = sh"
| "run_signal_engine w thr sh ((t, features) # rest) =
     run_signal_engine w thr (snd (compute_signals w thr t features sh)) rest"

text \<open>
  A market state, the EV result and the history entry that the EV engine computes for
  it on an empty history (with \<open>example_config\<close>, \<open>example_signals\<close> and the draw 0),
  an account whose equity is half of its peak, an environment at a given time, and a
  system state with one open position and one with none.
\<close>

definition example_market :: pydict where
  "example_market = [''volatility'' \<mapsto> 0, ''ATR'' \<mapsto> 1]"

definition example_result :: ev_result where
  "example_result =
     \<lparr>res_symbol = ''BTCUSDT'', p_win = 5 / 6, res_G = 4, res_L = 1.1, res_EV = 3.1284,
      res_tier = T1_explosive, kelly_position = 0.25, recommended_leverage = 90,
      components = [], other_keys = Map.empty\<rparr>"

definition example_recorded :: trade_history_entry where
  "example_recorded =
     \<lparr>th_symbol = ''BTCUSDT'', th_p = 5 / 6, th_G = 4, th_L = 1.1, th_EV = 3.1284,
      th_tier = T1_explosive, th_win = True\<rparr>"

definition example_acct :: accounting where
  "example_acct =
     \<lparr>equity = 50, equity_peak = 100, acct_margin_ratio = 1, available_balance = 1000\<rparr>"

definition example_env :: "time \<Rightarrow> env" where
  "example_env t = \<lparr>now = t, acct = example_acct, coin = True, lev_draw = 0\<rparr>"

definition example_position :: position where
  "example_position =
     \<lparr>entry_time = 0, entry_price = 0, leverage = 20, notional = 100, ev_entry = 0.1,
      direction = BUY, is_open = True\<rparr>"

definition example_system :: system where
  "example_system =
     \<lparr>signals = example_signals, ev_history = [], risk = risk_init,
      active_positions = [(''BTCUSDT'', example_position)], cooldowns = Map.empty,
      trade_log = []\<rparr>"

definition example_flat :: system where
  "example_flat =
     \<lparr>signals = example_signals, ev_history = [], risk = risk_init,
      active_positions = [], cooldowns = Map.empty, trade_log = []\<rparr>"

text \<open>The example state after its position has been exited at time 0.\<close>

definition example_exited :: system where
  "example_exited = exit_position (example_env 0) example_system ''BTCUSDT'' ''Signal invalid''"

section \<open>Properties\<close>

subsection \<open>Clamps and tiers\<close>

lemma clip_bounds: "lo \<le> hi \<Longrightarrow> lo \<le> clip x lo hi \<and> clip x lo hi \<le> hi"
  by (simp add: clip_def)

lemma estimate_probability_total:
  assumes "0 < beta_alpha cfg" "0 < beta_beta cfg"
  shows "\<exists>p. estimate_probability cfg h smb score st = Inr p \<and> 0.01 \<le> p \<and> p \<le> 0.99"
proof -
  let ?w = "real (length (filter (\<lambda>t. th_symbol t = smb \<and> th_win t) h))"
  let ?l = "real (length (filter (\<lambda>t. th_symbol t = smb \<and> \<not> th_win t) h))"
  have "beta_alpha cfg + ?w + score * 10 + (beta_beta cfg + ?l + (1 - score) * 10)
        = beta_alpha cfg + beta_beta cfg + ?w + ?l + 10"
    by (simp add: algebra_simps)
  also have "\<dots> > 0"
    using assms by simp
  finally have nz:
    "beta_alpha cfg + ?w + score * 10 + (beta_beta cfg + ?l + (1 - score) * 10) \<noteq> 0"
    by simp
  show ?thesis
    using nz clip_bounds [of "0.01" "0.99"]
    by (simp add: estimate_probability_def Let_def)
qed

lemma estimate_gain_bounds: "0.5 \<le> estimate_gain st \<and> estimate_gain st \<le> 5"
  using clip_bounds [of "0.5" "5"] by (simp add: estimate_gain_def Let_def)

lemma estimate_loss_total:
  assumes "dict_get st ''depth_score'' 1 \<noteq> 0"
  shows "\<exists>L. estimate_loss st = Inr L \<and> 0.5 \<le> L \<and> L \<le> 5"
  using assms clip_bounds [of "0.5" "5"] by (simp add: estimate_loss_def Let_def)

lemma dynamic_kelly_total:
  assumes "0 < G" "0 < L"
  shows "\<exists>k. dynamic_kelly p G L = Inr k \<and> 0 \<le> k \<and> k \<le> 0.25"
  using assms clip_bounds [of "0" "0.25"] by (simp add: dynamic_kelly_def Let_def)

text \<open>
  With a signal for the symbol, a Beta prior with positive parameters and a non-zero
  depth score, the evaluation returns a result and records it.
\<close>

lemma calculate_ev_total:
  assumes sg: "sigs smb = Some sd"
    and pr: "0 < beta_alpha cfg" "0 < beta_beta cfg"
    and dp: "dict_get st ''depth_score'' 1 \<noteq> 0"
  shows "\<exists>r. calculate_ev_for_symbol cfg sigs h d smb st =
               Inr (Some r, record_history (trade_window cfg) h smb
                              (p_win r) (res_G r) (res_L r) (res_EV r) (res_tier r))
             \<and> 0.01 \<le> p_win r \<and> p_win r \<le> 0.99
             \<and> 0.5 \<le> res_G r \<and> res_G r \<le> 5
             \<and> 0.5 \<le> res_L r \<and> res_L r \<le> 5
             \<and> 0 \<le> kelly_position r \<and> kelly_position r \<le> 0.25
             \<and> other_keys r = Map.empty"
proof -
  obtain p where p: "estimate_probability cfg h smb (signal_score sd) st = Inr p"
    "0.01 \<le> p" "p \<le> 0.99"
    using estimate_probability_total [OF pr] by blast
  obtain L where L: "estimate_loss st = Inr L" "0.5 \<le> L" "L \<le> 5"
    using estimate_loss_total [OF dp] by blast
  have G: "0.5 \<le> estimate_gain st" "estimate_gain st \<le> 5"
    using estimate_gain_bounds by simp_all
  obtain k where k: "dynamic_kelly p (estimate_gain st) L = Inr k" "0 \<le> k" "k \<le> 0.25"
    using dynamic_kelly_total [of "estimate_gain st" L p] G L by auto
  show ?thesis
    using sg p L G k
    by (simp add: calculate_ev_for_symbol_def get_signal_def Let_def)
qed

text \<open>
  Claim C10. For every valid market state (a depth score that is not zero), every
  history and a Beta prior with positive parameters, the EV engine returns a result
  whose win probability lies in \<open>[0.01, 0.99]\<close>, whose gain and loss lie in
  \<open>[0.5, 5.0]\<close> and whose Kelly fraction lies in \<open>[0, 0.25]\<close>.
\<close>

theorem ev_engine_outputs_clamped:
  assumes "sigs smb = Some sd"
    and "0 < beta_alpha cfg" and "0 < beta_beta cfg"
    and "dict_get st ''depth_score'' 1 \<noteq> 0"
  shows "\<exists>r h'. calculate_ev_for_symbol cfg sigs h d smb st = Inr (Some r, h')
           \<and> 0.01 \<le> p_win r \<and> p_win r \<le> 0.99
           \<and> 0.5 \<le> res_G r \<and> res_G r \<le> 5.0
           \<and> 0.5 \<le> res_L r \<and> res_L r \<le> 5.0
           \<and> 0 \<le> kelly_position r \<and> kelly_position r \<le> 0.25"
proof -
  obtain r where
    "calculate_ev_for_symbol cfg sigs h d smb st =
       Inr (Some r, record_history (trade_window cfg) h smb
                      (p_win r) (res_G r) (res_L r) (res_EV r) (res_tier r))"
    "0.01 \<le> p_win r" "p_win r \<le> 0.99" "0.5 \<le> res_G r" "res_G r \<le> 5"
    "0.5 \<le> res_L r" "res_L r \<le> 5" "0 \<le> kelly_position r" "kelly_position r \<le> 0.25"
    using calculate_ev_total [where sigs = sigs and smb = smb and cfg = cfg and st = st] assms
    by blast
  then show ?thesis
    by auto
qed

theorem ev_engine_outputs_clamped_witness:
  "example_signals ''BTCUSDT'' = Some example_signal
   \<and> 0 < beta_alpha example_config \<and> 0 < beta_beta example_config
   \<and> dict_get [''volatility'' \<mapsto> 2, ''depth_score'' \<mapsto> 0.5] ''depth_score'' 1 \<noteq> 0
   \<and> (\<exists>r h'. calculate_ev_for_symbol example_config example_signals [] 0 ''BTCUSDT''
                 [''volatility'' \<mapsto> 2, ''depth_score'' \<mapsto> 0.5] = Inr (Some r, h')
           \<and> 0.01 \<le> p_win r \<and> p_win r \<le> 0.99
           \<and> 0.5 \<le> res_G r \<and> res_G r \<le> 5.0
           \<and> 0.5 \<le> res_L r \<and> res_L r \<le> 5.0
           \<and> 0 \<le> kelly_position r \<and> kelly_position r \<le> 0.25)"
proof -
  have a: "example_signals ''BTCUSDT'' = Some example_signal"
    by (simp add: example_signals_def)
  have b: "0 < beta_alpha example_config" "0 < beta_beta example_config"
    by (simp_all add: example_config_def)
  have c: "dict_get [''volatility'' \<mapsto> 2, ''depth_score'' \<mapsto> 0.5] ''depth_score'' 1 \<noteq> 0"
    by (simp add: dict_get_def)
  from ev_engine_outputs_clamped
         [where sigs = example_signals and smb = "''BTCUSDT''" and cfg = example_config
            and st = "[''volatility'' \<mapsto> 2, ''depth_score'' \<mapsto> 0.5]"
            and h = "[]" and d = 0, OF a b c]
       a b c
  show ?thesis
    by blast
qed

text \<open>
  Claim C9. The tier is a step function of the EV with the six bands
  \<open>EV \<ge> 0.35\<close>, \<open>[0.20, 0.35)\<close>, \<open>[0.10, 0.20)\<close>, \<open>[0.03, 0.10)\<close>,
  \<open>[-0.02, 0.03)\<close> and \<open>EV < -0.02\<close>, each boundary belonging to the higher tier;
  it is monotonic in the EV; and the tier that signal fusion's coarse classifier
  returns is the tier the EV engine's classifier gives to the coarse EV.
\<close>

theorem tier_assignment_step_function:
  "(classify_ev ev = T1_explosive \<longleftrightarrow> 0.35 \<le> ev) \<and>
   (classify_ev ev = T2_strong \<longleftrightarrow> 0.20 \<le> ev \<and> ev < 0.35) \<and>
   (classify_ev ev = T3_moderate \<longleftrightarrow> 0.10 \<le> ev \<and> ev < 0.20) \<and>
   (classify_ev ev = T4_neutral \<longleftrightarrow> 0.03 \<le> ev \<and> ev < 0.10) \<and>
   (classify_ev ev = T5_scalping \<longleftrightarrow> - 0.02 \<le> ev \<and> ev < 0.03) \<and>
   (classify_ev ev = T6_defensive \<longleftrightarrow> ev < - 0.02) \<and>
   (ev \<le> ev' \<longrightarrow> tier_rank (classify_ev ev) \<le> tier_rank (classify_ev ev')) \<and>
   snd (ev_classify thr score feat) = classify_ev (fst (ev_classify thr score feat))"
  by (simp add: classify_ev_def ev_classify_def Let_def)

theorem tier_assignment_step_function_witness:
  "(0.35::real) \<le> 0.4 \<and> classify_ev 0.35 = T1_explosive \<and>
   tier_rank (classify_ev 0.35) \<le> tier_rank (classify_ev 0.4)"
proof -
  have h: "(0.35::real) \<le> 0.4"
    by simp
  have b: "(0.35::real) \<le> 0.35"
    by simp
  from tier_assignment_step_function [of "0.35" "0.4" 0 0 Map.empty] h b show ?thesis
    by blast
qed

subsection \<open>Circuit breaker\<close>

lemma three_losses_trip:
  assumes "0 \<le> loss_streak r" "p1 < 0" "p2 < 0" "p3 < 0"
  shows "circuit_breaker_active
           (register_trade_result t3 p3
             (register_trade_result t2 p2 (register_trade_result t1 p1 r)))
         \<and> last_trigger_time
           (register_trade_result t3 p3
             (register_trade_result t2 p2 (register_trade_result t1 p1 r))) = Some t3"
  using assms by (simp add: register_trade_result_def trigger_circuit_breaker_def Let_def)

lemma check_tripped_within:
  assumes "circuit_breaker_active r" "last_trigger_time r = Some t0" "t \<le> t0 + minutes 180"
  shows "check_circuit_breaker t r = Inr (True, r)"
  using assms by (simp add: check_circuit_breaker_def Let_def)

lemma check_tripped_after:
  assumes "circuit_breaker_active r" "last_trigger_time r = Some t0" "t0 + minutes 180 < t"
  shows "check_circuit_breaker t r =
           Inr (False, r\<lparr>circuit_breaker_active := False, loss_streak := 0\<rparr>)"
  using assms by (simp add: check_circuit_breaker_def Let_def)

lemma check_all_within:
  assumes "circuit_breaker_active r" "last_trigger_time r = Some t0"
    "\<forall>t \<in> set ts. t \<le> t0 + minutes 180"
  shows "check_all ts r = Inr (replicate (length ts) True, r)"
  using assms by (induction ts) (simp_all add: check_tripped_within)

text \<open>
  Claim C5. Let three calls of \<open>register_trade_result\<close> with negative pnl follow one
  another, the third at time \<open>t3\<close> (the counter of consecutive losses is never
  negative). Then the breaker is tripped with trigger time \<open>t3\<close>; a query at \<open>t3\<close>
  returns true; every query of any sequence of queries at times up to
  \<open>t3 + 180 min\<close> returns true and leaves the state as it is; a query strictly after
  that instant returns false, clears the breaker flag and sets the counter to 0. A
  call of \<open>register_trade_result\<close> with non-negative pnl sets the counter to 0.
\<close>

theorem breaker_trips_after_three_losses:
  assumes "0 \<le> loss_streak r" and "p1 < 0" and "p2 < 0" and "p3 < 0"
    and "r3 = register_trade_result t3 p3
                (register_trade_result t2 p2 (register_trade_result t1 p1 r))"
  shows "check_circuit_breaker t3 r3 = Inr (True, r3)
       \<and> (\<forall>ts. (\<forall>t \<in> set ts. t \<le> t3 + minutes 180) \<longrightarrow>
                 check_all ts r3 = Inr (replicate (length ts) True, r3))
       \<and> (\<forall>t. t3 + minutes 180 < t \<longrightarrow>
                 check_circuit_breaker t r3 =
                   Inr (False, r3\<lparr>circuit_breaker_active := False, loss_streak := 0\<rparr>))
       \<and> (\<forall>t p r'. 0 \<le> p \<longrightarrow> loss_streak (register_trade_result t p r') = 0)"
proof -
  have trip: "circuit_breaker_active r3" "last_trigger_time r3 = Some t3"
    using three_losses_trip [of r p1 p2 p3 t3 t2 t1] assms by simp_all
  have now_true: "check_circuit_breaker t3 r3 = Inr (True, r3)"
    using check_tripped_within [OF trip, of t3] by (simp add: minutes_def)
  have reset: "\<forall>t p r'. 0 \<le> p \<longrightarrow> loss_streak (register_trade_result t p r') = 0"
    by (simp add: register_trade_result_def)
  show ?thesis
    using now_true check_all_within [OF trip] check_tripped_after [OF trip] reset
    by blast
qed

theorem breaker_trips_after_three_losses_witness:
  "check_circuit_breaker 1000
     (register_trade_result 1000 (- 3)
       (register_trade_result 900 (- 2) (register_trade_result 800 (- 1) risk_init)))
   = Inr (True,
       register_trade_result 1000 (- 3)
         (register_trade_result 900 (- 2) (register_trade_result 800 (- 1) risk_init)))
   \<and> check_all [1000 + minutes 179, 1000 + minutes 180]
       (register_trade_result 1000 (- 3)
         (register_trade_result 900 (- 2) (register_trade_result 800 (- 1) risk_init)))
     = Inr ([True, True],
         register_trade_result 1000 (- 3)
           (register_trade_result 900 (- 2) (register_trade_result 800 (- 1) risk_init)))
   \<and> check_circuit_breaker (1000 + minutes 181)
       (register_trade_result 1000 (- 3)
         (register_trade_result 900 (- 2) (register_trade_result 800 (- 1) risk_init)))
     = Inr (False,
         (register_trade_result 1000 (- 3)
           (register_trade_result 900 (- 2) (register_trade_result 800 (- 1) risk_init)))
         \<lparr>circuit_breaker_active := False, loss_streak := 0\<rparr>)"
proof -
  let ?r3 = "register_trade_result 1000 (- 3)
       (register_trade_result 900 (- 2) (register_trade_result 800 (- 1) risk_init))"
  have a: "0 \<le> loss_streak risk_init"
    by (simp add: risk_init_def)
  have n: "(- 1 :: real) < 0" "(- 2 :: real) < 0" "(- 3 :: real) < 0"
    by simp_all
  note th = breaker_trips_after_three_losses [OF a n refl, of 1000 900 800]
  have q: "\<forall>t \<in> set [1000 + minutes 179, 1000 + minutes 180]. t \<le> 1000 + minutes 180"
    by (simp add: minutes_def)
  have l: "1000 + minutes 180 < 1000 + minutes 181"
    by (simp add: minutes_def)
  from th have "check_circuit_breaker 1000 ?r3 = Inr (True, ?r3)"
    by blast
  moreover from th q
  have "check_all [1000 + minutes 179, 1000 + minutes 180] ?r3
          = Inr (replicate (length [1000 + minutes 179, 1000 + minutes 180]) True, ?r3)"
    by blast
  moreover from th l
  have "check_circuit_breaker (1000 + minutes 181) ?r3
          = Inr (False, ?r3\<lparr>circuit_breaker_active := False, loss_streak := 0\<rparr>)"
    by blast
  ultimately show ?thesis
    by simp
qed

subsection \<open>Signal fusion on missing features\<close>

lemma example_weights_values:
  "example_weights ''breakout'' = Some 0.2" "example_weights ''momentum'' = Some 0.15"
  "example_weights ''whale_flow'' = Some 0.15"
  "example_weights ''orderbook_imbalance'' = Some 0.1"
  "example_weights ''funding_flip'' = Some 0.1" "example_weights ''macro_sentiment'' = Some 0.1"
  "example_weights ''onchain_flow'' = Some 0.1" "example_weights ''etf_flow'' = Some 0.05"
  "example_weights ''social_sentiment'' = Some 0.05"
  by (simp_all add: example_weights_def)

lemma example_weights_required: "set required_weights \<subseteq> dom example_weights"
  by (simp add: required_weights_def dom_def example_weights_values del: not_None_eq)

lemma required_weights_present:
  assumes "set required_weights \<subseteq> dom w"
  shows "\<exists>w1 w2 w3 w4 w5 w6 w7.
           w ''breakout'' = Some w1 \<and> w ''momentum'' = Some w2 \<and> w ''whale_flow'' = Some w3 \<and>
           w ''orderbook_imbalance'' = Some w4 \<and> w ''funding_flip'' = Some w5 \<and>
           w ''macro_sentiment'' = Some w6 \<and> w ''onchain_flow'' = Some w7"
  using assms by (auto simp add: required_weights_def)

text \<open>
  Claim C7, as the code has it. With the seven indexed weights configured, fusion
  returns for every feature mapping, and each absent feature is read as 0 by its
  transform. The component of an absent feature is then 0, except for
  \<open>funding_flip\<close>: its transform maps a bias that is not positive to \<open>-0.2\<close>, so an
  absent \<open>funding_bias\<close> contributes \<open>-0.2\<close> times its weight. Fusing the empty
  mapping gives eight zero contributions, that one for \<open>funding_flip\<close>, and it as the
  total score.
\<close>

theorem fusion_missing_features:
  assumes "set required_weights \<subseteq> dom w"
  shows "\<exists>bd sc wf. fusion w feat = Inr (bd, sc) \<and> sc = sum_list (map snd bd)
           \<and> w ''funding_flip'' = Some wf
           \<and> (feat ''price_velocity'' = None \<longrightarrow> map_of bd ''breakout'' = Some 0)
           \<and> (feat ''volume_acceleration'' = None \<longrightarrow> map_of bd ''momentum'' = Some 0)
           \<and> (feat ''liquidation_heat'' = None \<longrightarrow> map_of bd ''whale_flow'' = Some 0)
           \<and> (feat ''order_imbalance'' = None \<longrightarrow>
                 map_of bd ''orderbook_imbalance'' = Some 0)
           \<and> (feat ''funding_bias'' = None \<longrightarrow>
                 map_of bd ''funding_flip'' = Some (- 0.2 * wf))
           \<and> (feat ''macro_sentiment_score'' = None \<longrightarrow>
                 map_of bd ''macro_sentiment'' = Some 0)
           \<and> (feat ''onchain_score'' = None \<longrightarrow> map_of bd ''onchain_flow'' = Some 0)
           \<and> (feat ''etf_flow_score'' = None \<longrightarrow> map_of bd ''etf_flow'' = Some 0)
           \<and> (feat ''social_sentiment_score'' = None \<longrightarrow>
                 map_of bd ''social_sentiment'' = Some 0)
           \<and> fusion w Map.empty =
               Inr ([(''breakout'', 0), (''momentum'', 0), (''whale_flow'', 0),
                     (''orderbook_imbalance'', 0), (''funding_flip'', - 0.2 * wf),
                     (''macro_sentiment'', 0), (''onchain_flow'', 0), (''etf_flow'', 0),
                     (''social_sentiment'', 0)],
                    - 0.2 * wf)"
proof -
  from required_weights_present [OF assms] obtain w1 w2 w3 w4 w5 w6 w7 where ws:
    "w ''breakout'' = Some w1" "w ''momentum'' = Some w2" "w ''whale_flow'' = Some w3"
    "w ''orderbook_imbalance'' = Some w4" "w ''funding_flip'' = Some w5"
    "w ''macro_sentiment'' = Some w6" "w ''onchain_flow'' = Some w7"
    by blast
  show ?thesis
    using ws by (simp add: fusion_def dict_index_def dict_get_def Let_def)
qed

theorem fusion_missing_features_witness:
  "set required_weights \<subseteq> dom example_weights
   \<and> (\<exists>bd sc. fusion example_weights [''price_velocity'' \<mapsto> 0.001] = Inr (bd, sc)
         \<and> map_of bd ''momentum'' = Some 0
         \<and> map_of bd ''funding_flip'' = Some (- 0.2 * 0.1))
   \<and> fusion example_weights Map.empty =
        Inr ([(''breakout'', 0), (''momentum'', 0), (''whale_flow'', 0),
              (''orderbook_imbalance'', 0), (''funding_flip'', - 0.2 * 0.1),
              (''macro_sentiment'', 0), (''onchain_flow'', 0), (''etf_flow'', 0),
              (''social_sentiment'', 0)],
             - 0.2 * 0.1)"
proof -
  have m: "[''price_velocity'' \<mapsto> 0.001 :: real] ''volume_acceleration'' = None"
    "[''price_velocity'' \<mapsto> 0.001 :: real] ''funding_bias'' = None"
    by simp_all
  from fusion_missing_features
         [OF example_weights_required, of "[''price_velocity'' \<mapsto> 0.001]"]
  obtain bd sc wf where f:
    "fusion example_weights [''price_velocity'' \<mapsto> 0.001] = Inr (bd, sc)"
    "example_weights ''funding_flip'' = Some wf"
    "[''price_velocity'' \<mapsto> 0.001 :: real] ''volume_acceleration'' = None \<longrightarrow>
       map_of bd ''momentum'' = Some 0"
    "[''price_velocity'' \<mapsto> 0.001 :: real] ''funding_bias'' = None \<longrightarrow>
       map_of bd ''funding_flip'' = Some (- 0.2 * wf)"
    "fusion example_weights Map.empty =
       Inr ([(''breakout'', 0), (''momentum'', 0), (''whale_flow'', 0),
             (''orderbook_imbalance'', 0), (''funding_flip'', - 0.2 * wf),
             (''macro_sentiment'', 0), (''onchain_flow'', 0), (''etf_flow'', 0),
             (''social_sentiment'', 0)],
            - 0.2 * wf)"
    by (elim exE conjE) (rule that)
  from f(2) have wf: "wf = 0.1"
    by (simp add: example_weights_values)
  have A: "map_of bd ''momentum'' = Some 0"
    using f(3) m(1) by (rule mp)
  have B: "map_of bd ''funding_flip'' = Some (- 0.2 * 0.1)"
    using f(4) m(2) unfolding wf by (rule mp)
  show ?thesis
    using f(1) f(5) A B example_weights_required unfolding wf
    by (intro conjI exI)
qed

text \<open>
  The claim as it is written fails on the empty feature mapping: with the weight
  \<open>0.1\<close> for \<open>funding_flip\<close> the contribution of that component and the total score
  are \<open>-0.02\<close>, not 0.
\<close>

theorem fusion_empty_features_counterexample:
  "fusion example_weights Map.empty =
     Inr ([(''breakout'', 0), (''momentum'', 0), (''whale_flow'', 0),
           (''orderbook_imbalance'', 0), (''funding_flip'', - 0.02),
           (''macro_sentiment'', 0), (''onchain_flow'', 0), (''etf_flow'', 0),
           (''social_sentiment'', 0)],
          - 0.02)
   \<and> fusion example_weights Map.empty \<noteq>
     Inr ([(''breakout'', 0), (''momentum'', 0), (''whale_flow'', 0),
           (''orderbook_imbalance'', 0), (''funding_flip'', 0),
           (''macro_sentiment'', 0), (''onchain_flow'', 0), (''etf_flow'', 0),
           (''social_sentiment'', 0)],
          0)"
  by (simp add: fusion_def example_weights_values dict_index_def dict_get_def Let_def)

subsection \<open>Bounded histories\<close>

lemma record_history_eq:
  "record_history window h smb p G L ev tr =
     (let e = \<lparr>th_symbol = smb, th_p = p, th_G = G, th_L = L, th_EV = ev, th_tier = tr,
                th_win = (ev > 0)\<rparr>
      in if int (length h) < window then h @ [e] else tl (h @ [e]))"
  by (simp add: record_history_def Let_def)

lemma record_history_length:
  "int (length h) \<le> window \<Longrightarrow>
     int (length (record_history window h smb p G L ev tr)) \<le> window"
  by (simp add: record_history_def Let_def)

lemma calculate_ev_some:
  assumes "calculate_ev_for_symbol cfg sigs h d smb st = Inr (Some r, h')"
  shows "h' = record_history (trade_window cfg) h smb
                (p_win r) (res_G r) (res_L r) (res_EV r) (res_tier r)
         \<and> res_symbol r = smb \<and> other_keys r = Map.empty \<and> sigs smb \<noteq> None"
  using assms
  by (auto simp add: calculate_ev_for_symbol_def get_signal_def Let_def
           split: option.splits sum.splits)

lemma calculate_ev_none:
  "sigs smb = None \<Longrightarrow> calculate_ev_for_symbol cfg sigs h d smb st = Inr (None, h)"
  by (simp add: calculate_ev_for_symbol_def get_signal_def)

lemma calculate_ev_none_iff:
  assumes "calculate_ev_for_symbol cfg sigs h d smb st = Inr (None, h')"
  shows "h' = h \<and> sigs smb = None"
  using assms
  by (auto simp add: calculate_ev_for_symbol_def get_signal_def Let_def
           split: option.splits sum.splits)

lemma deque_append_length: "length xs \<le> n \<Longrightarrow> length (deque_append n xs x) \<le> n"
  by (auto simp add: deque_append_def)

lemma compute_signals_loop_length:
  "length sh \<le> 1000 \<Longrightarrow>
     length (snd (compute_signals_loop w thr t feats sg sh)) \<le> 1000"
proof (induction feats arbitrary: sg sh)
  case Nil
  then show ?case
    by simp
next
  case (Cons a feats)
  obtain smb feat where a: "a = (smb, feat)"
    by (cases a)
  show ?case
  proof (cases "fusion w feat")
    case (Inl e)
    then show ?thesis
      using Cons.prems a by simp
  next
    case (Inr v)
    obtain bd sc where v: "v = (bd, sc)"
      by (cases v)
    obtain ev tr where c: "ev_classify thr sc feat = (ev, tr)"
      by (cases "ev_classify thr sc feat")
    show ?thesis
      using Inr v c a Cons.IH [OF deque_append_length [OF Cons.prems]]
      by simp
  qed
qed

lemma exit_position_history: "ev_history (exit_position e s smb reason) = ev_history s"
  by (simp add: exit_position_def split: option.splits)

lemma enter_position_history: "ev_history (enter_position e s smb r lev sz) = ev_history s"
  by (simp add: enter_position_def Let_def)

lemma maybe_exit_history: "maybe_exit e s smb r = Inr s' \<Longrightarrow> ev_history s' = ev_history s"
  by (auto simp add: maybe_exit_def Let_def exit_position_history split: option.splits)

lemma maybe_rotate_history: "maybe_rotate e s smb r = Inr s' \<Longrightarrow> ev_history s' = ev_history s"
  by (auto simp add: maybe_rotate_def Let_def exit_position_history enter_position_history
        split: option.splits sum.splits if_splits)

lemma calculate_ev_history_bound:
  assumes "int (length h) \<le> trade_window cfg"
    and "calculate_ev_for_symbol cfg sigs h d smb st = Inr (ro, h')"
  shows "int (length h') \<le> trade_window cfg"
proof (cases ro)
  case None
  then show ?thesis
    using calculate_ev_none_iff assms by blast
next
  case (Some r)
  then show ?thesis
    using calculate_ev_some [of cfg sigs h d smb st r h'] assms record_history_length
    by simp
qed

lemma execute_symbol_history_bound:
  assumes "int (length (ev_history s)) \<le> trade_window cfg"
  shows "int (length (ev_history (final_state (execute_symbol cfg e s smb st))))
           \<le> trade_window cfg"
proof (cases "calculate_ev_for_symbol cfg (signals s) (ev_history s) (lev_draw e) smb st")
  case (Inl err)
  then show ?thesis
    using assms by (simp add: execute_symbol_def final_state_def)
next
  case (Inr v)
  obtain ro h where v: "v = (ro, h)"
    by (cases v)
  have b: "int (length h) \<le> trade_window cfg"
    using calculate_ev_history_bound [OF assms] Inr v by simp
  show ?thesis
    using Inr v b
    by (auto simp add: execute_symbol_def final_state_def Let_def enter_position_history
          maybe_exit_history maybe_rotate_history
          split: option.splits sum.splits prod.splits if_splits)
qed

lemma execute_cycle_history_bound:
  "int (length (ev_history s)) \<le> trade_window cfg \<Longrightarrow>
     int (length (ev_history (final_state (execute_cycle cfg s snapshot)))) \<le> trade_window cfg"
proof (induction snapshot arbitrary: s)
  case Nil
  then show ?case
    by (simp add: final_state_def)
next
  case (Cons a snapshot)
  obtain smb st e where a: "a = (smb, st, e)"
    by (cases a)
  show ?case
  proof (cases "execute_symbol cfg e s smb st")
    case (Inl err)
    then show ?thesis
      using execute_symbol_history_bound [OF Cons.prems, of e smb st] a
      by (simp add: final_state_def)
  next
    case (Inr s1)
    then have "int (length (ev_history s1)) \<le> trade_window cfg"
      using execute_symbol_history_bound [OF Cons.prems, of e smb st]
      by (simp add: final_state_def)
    then show ?thesis
      using Cons.IH Inr a by simp
  qed
qed

lemma evaluate_all_bound:
  "int (length h) \<le> trade_window cfg \<Longrightarrow>
     int (length (evaluate_all cfg h calls)) \<le> trade_window cfg"
proof (induction calls arbitrary: h)
  case Nil
  then show ?case
    by simp
next
  case (Cons c calls)
  obtain sigs d smb st where c: "c = (sigs, d, smb, st)"
    by (cases c)
  show ?case
  proof (cases "calculate_ev_for_symbol cfg sigs h d smb st")
    case (Inl e)
    then show ?thesis
      using Cons c by simp
  next
    case (Inr v)
    obtain ro h1 where v: "v = (ro, h1)"
      by (cases v)
    have "int (length h1) \<le> trade_window cfg"
      using calculate_ev_history_bound [OF Cons.prems] Inr v by simp
    then show ?thesis
      using Cons.IH Inr v c by simp
  qed
qed

lemma run_cycles_bound:
  "int (length (ev_history s)) \<le> trade_window cfg \<Longrightarrow>
     int (length (ev_history (run_cycles cfg s snapshots))) \<le> trade_window cfg"
proof (induction snapshots arbitrary: s)
  case Nil
  then show ?case
    by simp
next
  case (Cons snapshot snapshots)
  show ?case
    using Cons.IH [OF execute_cycle_history_bound [OF Cons.prems]] by simp
qed

lemma run_signal_engine_bound:
  "length sh \<le> 1000 \<Longrightarrow> length (run_signal_engine w thr sh cycles) \<le> 1000"
proof (induction cycles arbitrary: sh)
  case Nil
  then show ?case
    by simp
next
  case (Cons c cycles)
  obtain t feats where c: "c = (t, feats)"
    by (cases c)
  have "length (snd (compute_signals w thr t feats sh)) \<le> 1000"
    using compute_signals_loop_length [OF Cons.prems] by (simp add: compute_signals_def)
  then show ?case
    using Cons.IH c by simp
qed

lemma example_history_full: "int (length example_history) \<le> trade_window example_config"
  by (simp add: example_history_def example_config_def)

lemma example_window_nonneg: "0 \<le> trade_window example_config"
  by (simp add: example_config_def)

text \<open>
  Claim C8, as the code has it. A call of \<open>calculate_ev_for_symbol\<close> for a symbol
  without a signal returns the empty result and leaves the history as it is. Every
  call that returns a result appends exactly one entry, whose win flag is \<open>EV > 0\<close>,
  and then removes the oldest entry if the window is exceeded. With a signal, a Beta
  prior with positive parameters and a non-zero depth score the call does return a
  result. The histories never exceed their capacities: starting from the empty
  histories of the engines, after any sequence of EV evaluations and after any
  sequence of execution cycles, returning or raising, the EV history has at most
  \<open>trade_window\<close> entries (a window that is not negative), and after any run of the
  signal engine the signal history, a deque of capacity 1000, has at most 1000; each
  single operation keeps a history within its capacity, and a full deque drops its
  oldest entry on append.
\<close>

theorem ev_history_append_and_bound:
  assumes "0 \<le> trade_window cfg"
  shows
   "int (length (evaluate_all cfg [] calls)) \<le> trade_window cfg
  \<and> (\<forall>s. ev_history s = [] \<longrightarrow>
        int (length (ev_history (run_cycles cfg s snapshots))) \<le> trade_window cfg)
  \<and> length (run_signal_engine w thr [] cycles) \<le> 1000
  \<and> (sigs smb = None \<longrightarrow> calculate_ev_for_symbol cfg sigs h d smb st = Inr (None, h))
  \<and> (\<forall>r h'. calculate_ev_for_symbol cfg sigs h d smb st = Inr (Some r, h') \<longrightarrow>
        (let e = \<lparr>th_symbol = smb, th_p = p_win r, th_G = res_G r, th_L = res_L r,
                   th_EV = res_EV r, th_tier = res_tier r, th_win = (0 < res_EV r)\<rparr>
         in h' = (if int (length h) < trade_window cfg then h @ [e] else tl (h @ [e]))))
  \<and> (sigs smb \<noteq> None \<and> 0 < beta_alpha cfg \<and> 0 < beta_beta cfg
        \<and> dict_get st ''depth_score'' 1 \<noteq> 0 \<longrightarrow>
        (\<exists>r h'. calculate_ev_for_symbol cfg sigs h d smb st = Inr (Some r, h')))
  \<and> (int (length h) \<le> trade_window cfg \<longrightarrow>
        (\<forall>res h'. calculate_ev_for_symbol cfg sigs h d smb st = Inr (res, h') \<longrightarrow>
           int (length h') \<le> trade_window cfg)
        \<and> (\<forall>s snapshot. ev_history s = h \<longrightarrow>
             int (length (ev_history (final_state (execute_cycle cfg s snapshot))))
               \<le> trade_window cfg))
  \<and> (length sh \<le> 1000 \<longrightarrow>
        length (snd (compute_signals w thr t feats sh)) \<le> 1000
        \<and> length (deque_append 1000 sh x) \<le> 1000)
  \<and> (length sh = 1000 \<longrightarrow> deque_append 1000 sh x = tl sh @ [x])"
proof -
  have e0: "int (length ([] :: trade_history_entry list)) \<le> trade_window cfg"
    using assms by simp
  have I1: "int (length (evaluate_all cfg [] calls)) \<le> trade_window cfg"
    using evaluate_all_bound [OF e0] .
  have I2: "\<forall>s. ev_history s = [] \<longrightarrow>
        int (length (ev_history (run_cycles cfg s snapshots))) \<le> trade_window cfg"
  proof (intro allI impI)
    fix s :: system
    assume "ev_history s = []"
    then have "int (length (ev_history s)) \<le> trade_window cfg"
      using assms by simp
    then show "int (length (ev_history (run_cycles cfg s snapshots))) \<le> trade_window cfg"
      by (rule run_cycles_bound)
  qed
  have I3: "length (run_signal_engine w thr [] cycles) \<le> 1000"
    using run_signal_engine_bound [of "[]"] by simp
  have A: "sigs smb = None \<longrightarrow> calculate_ev_for_symbol cfg sigs h d smb st = Inr (None, h)"
    by (simp add: calculate_ev_none)
  have B: "\<forall>r h'. calculate_ev_for_symbol cfg sigs h d smb st = Inr (Some r, h') \<longrightarrow>
        (let e = \<lparr>th_symbol = smb, th_p = p_win r, th_G = res_G r, th_L = res_L r,
                   th_EV = res_EV r, th_tier = res_tier r, th_win = (0 < res_EV r)\<rparr>
         in h' = (if int (length h) < trade_window cfg then h @ [e] else tl (h @ [e])))"
  proof (intro allI impI)
    fix r :: ev_result and h' :: "trade_history_entry list"
    assume c: "calculate_ev_for_symbol cfg sigs h d smb st = Inr (Some r, h')"
    from calculate_ev_some [OF c]
    have h': "h' = record_history (trade_window cfg) h smb
                (p_win r) (res_G r) (res_L r) (res_EV r) (res_tier r)"
      by simp
    show "let e = \<lparr>th_symbol = smb, th_p = p_win r, th_G = res_G r, th_L = res_L r,
                   th_EV = res_EV r, th_tier = res_tier r, th_win = (0 < res_EV r)\<rparr>
         in h' = (if int (length h) < trade_window cfg then h @ [e] else tl (h @ [e]))"
      unfolding h' by (simp add: record_history_eq Let_def)
  qed
  have C: "sigs smb \<noteq> None \<and> 0 < beta_alpha cfg \<and> 0 < beta_beta cfg
        \<and> dict_get st ''depth_score'' 1 \<noteq> 0 \<longrightarrow>
        (\<exists>r h'. calculate_ev_for_symbol cfg sigs h d smb st = Inr (Some r, h'))"
  proof
    assume v: "sigs smb \<noteq> None \<and> 0 < beta_alpha cfg \<and> 0 < beta_beta cfg
        \<and> dict_get st ''depth_score'' 1 \<noteq> 0"
    then obtain sd where "sigs smb = Some sd"
      by auto
    from calculate_ev_total [where sigs = sigs and smb = smb and cfg = cfg and st = st, OF this]
      v
    show "\<exists>r h'. calculate_ev_for_symbol cfg sigs h d smb st = Inr (Some r, h')"
      by blast
  qed
  have S: "int (length h) \<le> trade_window cfg \<longrightarrow>
        (\<forall>res h'. calculate_ev_for_symbol cfg sigs h d smb st = Inr (res, h') \<longrightarrow>
           int (length h') \<le> trade_window cfg)
        \<and> (\<forall>s snapshot. ev_history s = h \<longrightarrow>
             int (length (ev_history (final_state (execute_cycle cfg s snapshot))))
               \<le> trade_window cfg)"
    using calculate_ev_history_bound execute_cycle_history_bound by blast
  have D: "length sh \<le> 1000 \<longrightarrow>
        length (snd (compute_signals w thr t feats sh)) \<le> 1000
        \<and> length (deque_append 1000 sh x) \<le> 1000"
    using compute_signals_loop_length [of sh w thr t feats Map.empty]
      deque_append_length [of sh 1000 x]
    by (simp add: compute_signals_def)
  have F: "length sh = 1000 \<longrightarrow> deque_append 1000 sh x = tl sh @ [x]"
    by (simp add: deque_append_def)
  from I1 I2 I3 A B C S D F show ?thesis
    by (intro conjI)
qed

theorem ev_history_append_and_bound_witness:
  "0 \<le> trade_window example_config
   \<and> int (length (evaluate_all example_config []
        [(example_signals, 0, ''BTCUSDT'', example_market),
         (example_signals, 1, ''BTCUSDT'', example_market),
         (example_signals, 2, ''BTCUSDT'', example_market),
         (example_signals, 3, ''BTCUSDT'', example_market)])) \<le> 3
   \<and> length (run_signal_engine example_weights 0.5 []
        [(0, [(''BTCUSDT'', Map.empty)]), (1, [(''BTCUSDT'', Map.empty)])]) \<le> 1000
   \<and> (\<exists>r h'. calculate_ev_for_symbol example_config example_signals example_history 0
                 ''BTCUSDT'' Map.empty = Inr (Some r, h')
         \<and> h' = [example_entry (- 0.1), example_entry 0.2,
                  \<lparr>th_symbol = ''BTCUSDT'', th_p = p_win r, th_G = res_G r, th_L = res_L r,
                   th_EV = res_EV r, th_tier = res_tier r, th_win = (0 < res_EV r)\<rparr>]
         \<and> int (length h') \<le> 3)
   \<and> calculate_ev_for_symbol example_config Map.empty example_history 0 ''BTCUSDT'' Map.empty
       = Inr (None, example_history)"
proof -
  note th = ev_history_append_and_bound [OF example_window_nonneg,
      where sigs = example_signals and smb = "''BTCUSDT''" and st = Map.empty and d = 0
        and h = example_history]
  note th0 = ev_history_append_and_bound [OF example_window_nonneg,
      where sigs = Map.empty and smb = "''BTCUSDT''" and st = Map.empty and d = 0
        and h = example_history]
  have w3: "trade_window example_config = 3"
    by (simp add: example_config_def)
  from th have i1: "int (length (evaluate_all example_config []
        [(example_signals, 0, ''BTCUSDT'', example_market),
         (example_signals, 1, ''BTCUSDT'', example_market),
         (example_signals, 2, ''BTCUSDT'', example_market),
         (example_signals, 3, ''BTCUSDT'', example_market)])) \<le> trade_window example_config"
    by blast
  from th have i3: "length (run_signal_engine example_weights 0.5 []
        [(0, [(''BTCUSDT'', Map.empty)]), (1, [(''BTCUSDT'', Map.empty)])]) \<le> 1000"
    by blast
  have v: "example_signals ''BTCUSDT'' \<noteq> None \<and> 0 < beta_alpha example_config
           \<and> 0 < beta_beta example_config \<and> dict_get Map.empty ''depth_score'' 1 \<noteq> 0"
    by (simp add: example_signals_def example_config_def dict_get_def)
  from th v obtain r h' where c:
    "calculate_ev_for_symbol example_config example_signals example_history 0
       ''BTCUSDT'' Map.empty = Inr (Some r, h')"
    by blast
  from th c have p:
    "let e = \<lparr>th_symbol = ''BTCUSDT'', th_p = p_win r, th_G = res_G r, th_L = res_L r,
                   th_EV = res_EV r, th_tier = res_tier r, th_win = (0 < res_EV r)\<rparr>
         in h' = (if int (length example_history) < trade_window example_config
                  then example_history @ [e] else tl (example_history @ [e]))"
    by blast
  then have q: "h' = [example_entry (- 0.1), example_entry 0.2,
                  \<lparr>th_symbol = ''BTCUSDT'', th_p = p_win r, th_G = res_G r, th_L = res_L r,
                   th_EV = res_EV r, th_tier = res_tier r, th_win = (0 < res_EV r)\<rparr>]"
    by (simp add: example_history_def w3 Let_def)
  from th c example_history_full have b: "int (length h') \<le> trade_window example_config"
    by blast
  from th0 have n: "calculate_ev_for_symbol example_config Map.empty example_history 0
      ''BTCUSDT'' Map.empty = Inr (None, example_history)"
    by simp
  from c q b have e: "\<exists>r h'. calculate_ev_for_symbol example_config example_signals
        example_history 0 ''BTCUSDT'' Map.empty = Inr (Some r, h')
         \<and> h' = [example_entry (- 0.1), example_entry 0.2,
                  \<lparr>th_symbol = ''BTCUSDT'', th_p = p_win r, th_G = res_G r, th_L = res_L r,
                   th_EV = res_EV r, th_tier = res_tier r, th_win = (0 < res_EV r)\<rparr>]
         \<and> int (length h') \<le> 3"
    unfolding w3 by blast
  from example_window_nonneg i1 i3 e n show ?thesis
    unfolding w3 by (intro conjI)
qed

text \<open>
  The claim as it is written fails for a symbol that has no signal: the call returns
  the empty result and appends nothing.
\<close>

theorem ev_evaluation_without_signal_counterexample:
  "calculate_ev_for_symbol example_config Map.empty [] 0 ''BTCUSDT'' Map.empty = Inr (None, [])"
  by (simp add: calculate_ev_for_symbol_def get_signal_def)

subsection \<open>The EV engine on the example market state\<close>

lemma example_probability:
  "estimate_probability example_config [] ''BTCUSDT'' 0.9 example_market = Inr (5 / 6)"
  by (simp add: estimate_probability_def example_config_def example_market_def dict_get_def
        Let_def clip_def)

lemma example_gain: "estimate_gain example_market = 4"
  by (simp add: estimate_gain_def example_market_def dict_get_def Let_def clip_def)

lemma example_loss: "estimate_loss example_market = Inr 1.1"
  by (simp add: estimate_loss_def example_market_def dict_get_def Let_def clip_def)

lemma example_fees: "estimate_fees example_market = 0.0216"
  by (simp add: estimate_fees_def example_market_def dict_get_def Let_def)

lemma example_kelly: "dynamic_kelly (5 / 6) 4 1.1 = Inr 0.25"
  by (simp add: dynamic_kelly_def Let_def clip_def)

lemma example_leverage: "recommend_leverage 0 3.1284 = 90"
  by (simp add: recommend_leverage_def randint_def)

lemma example_window: "trade_window example_config = 3"
  by (simp add: example_config_def)

lemma example_calculate_ev:
  "calculate_ev_for_symbol example_config example_signals [] 0 ''BTCUSDT'' example_market =
     Inr (Some example_result, [example_recorded])"
  by (simp add: calculate_ev_for_symbol_def get_signal_def example_signals_def
        example_signal_def example_probability example_gain example_loss example_fees
        example_kelly recommend_leverage_def randint_def classify_ev_def record_history_def
        example_result_def example_recorded_def example_window Let_def)

subsection \<open>Entry, exit and cooldown\<close>

lemma exit_position_open:
  assumes "map_of (active_positions s) smb = Some pos"
  shows "cooldowns (exit_position e s smb reason) smb = Some (now e + minutes 5)
       \<and> map_of (active_positions (exit_position e s smb reason)) smb = None"
  using assms by (simp add: exit_position_def AList.delete_eq map_of_eq_None_iff image_iff)

lemma execute_symbol_in_cooldown:
  assumes "cooldowns s smb = Some until" "now e < until"
  shows "active_positions (final_state (execute_symbol cfg e s smb st)) = active_positions s
       \<and> cooldowns (final_state (execute_symbol cfg e s smb st)) = cooldowns s
       \<and> trade_log (final_state (execute_symbol cfg e s smb st)) = trade_log s"
proof (cases "calculate_ev_for_symbol cfg (signals s) (ev_history s) (lev_draw e) smb st")
  case (Inl err)
  then show ?thesis
    by (simp add: execute_symbol_def final_state_def)
next
  case (Inr v)
  obtain ro h where v: "v = (ro, h)"
    by (cases v)
  show ?thesis
  proof (cases ro)
    case None
    then show ?thesis
      using Inr v by (simp add: execute_symbol_def final_state_def)
  next
    case (Some r)
    show ?thesis
    proof (cases "check_risk e (risk s) smb (res_EV r)")
      case (Inl err)
      then show ?thesis
        using Inr v Some by (simp add: execute_symbol_def final_state_def Let_def)
    next
      case (Inr w)
      obtain ok r1 where w: "w = (ok, r1)"
        by (cases w)
      have "in_cooldown e (s\<lparr>ev_history := h, risk := r1\<rparr>) smb"
        using assms by (simp add: in_cooldown_def)
      then show ?thesis
        using \<open>calculate_ev_for_symbol cfg (signals s) (ev_history s) (lev_draw e) smb st = Inr v\<close>
          v Some Inr w
        by (simp add: execute_symbol_def final_state_def Let_def)
    qed
  qed
qed

lemma check_risk_armed:
  assumes "\<not> circuit_breaker_active r"
  shows "check_risk e r smb ev = Inr (- 0.05 \<le> ev, r)"
  using assms by (auto simp add: check_risk_def check_circuit_breaker_def)

lemma execute_symbol_entry:
  assumes "calculate_ev_for_symbol cfg (signals s) (ev_history s) (lev_draw e) smb st
             = Inr (Some r, h)"
    and "\<not> circuit_breaker_active (risk s)" and "- 0.05 \<le> res_EV r"
    and "\<not> in_cooldown e s smb" and "map_of (active_positions s) smb = None"
    and "base_threshold cfg < res_EV r"
  shows "execute_symbol cfg e s smb st =
           Inr (enter_position e (s\<lparr>ev_history := h\<rparr>) smb r
                  (recommended_leverage r) (kelly_position r))"
  using assms
  by (simp add: execute_symbol_def check_risk_armed in_cooldown_def Let_def)

lemma enter_position_open:
  "map_of (active_positions (enter_position e s smb r lev sz)) smb =
     Some \<lparr>entry_time = now e,
           entry_price = (case map_of (components r) ''price'' of None \<Rightarrow> 0 | Some v \<Rightarrow> v),
           leverage = lev,
           notional = available_balance (acct e) * sz * real_of_int lev,
           ev_entry = res_EV r,
           direction = (if p_win r > 0.5 then BUY else SELL),
           is_open = True\<rparr>"
  by (simp add: enter_position_def mock_order_def Let_def update_conv')

text \<open>
  Claim C6. When a position is exited, whatever the reason, the cooldown of the
  symbol is set to the exit time plus 5 minutes and the symbol is flat. In every
  state that holds this cooldown, a pass of the cycle for the symbol at a time
  strictly before that instant finds it in cooldown and changes neither the
  positions, nor the cooldowns, nor the trade log, for every market state and
  configuration (so for every EV). At or after that instant the symbol is not in
  cooldown, and a pass whose EV result exceeds the threshold and passes the risk
  check opens a position.
\<close>

theorem exit_sets_cooldown_blocking_entry:
  assumes "map_of (active_positions s) smb = Some pos"
    and "s' = exit_position e s smb reason"
  shows "cooldowns s' smb = Some (now e + minutes 5)
     \<and> map_of (active_positions s') smb = None
     \<and> (\<forall>cfg e' st s''. cooldowns s'' smb = cooldowns s' smb \<and> now e' < now e + minutes 5 \<longrightarrow>
          in_cooldown e' s'' smb
          \<and> active_positions (final_state (execute_symbol cfg e' s'' smb st)) = active_positions s''
          \<and> cooldowns (final_state (execute_symbol cfg e' s'' smb st)) = cooldowns s''
          \<and> trade_log (final_state (execute_symbol cfg e' s'' smb st)) = trade_log s'')
     \<and> (\<forall>e'. now e + minutes 5 \<le> now e' \<longrightarrow> \<not> in_cooldown e' s' smb)
     \<and> (\<forall>cfg e' st r h. now e + minutes 5 \<le> now e'
            \<and> calculate_ev_for_symbol cfg (signals s') (ev_history s') (lev_draw e') smb st
                = Inr (Some r, h)
            \<and> \<not> circuit_breaker_active (risk s') \<and> - 0.05 \<le> res_EV r
            \<and> base_threshold cfg < res_EV r \<longrightarrow>
          execute_symbol cfg e' s' smb st =
            Inr (enter_position e' (s'\<lparr>ev_history := h\<rparr>) smb r
                   (recommended_leverage r) (kelly_position r))
          \<and> map_of (active_positions (final_state (execute_symbol cfg e' s' smb st))) smb
              \<noteq> None)"
proof -
  have cd: "cooldowns s' smb = Some (now e + minutes 5)"
    and fl: "map_of (active_positions s') smb = None"
    using exit_position_open [OF assms(1)] assms(2) by simp_all
  have blocked: "\<forall>cfg e' st s''. cooldowns s'' smb = cooldowns s' smb \<and> now e' < now e + minutes 5 \<longrightarrow>
          in_cooldown e' s'' smb
          \<and> active_positions (final_state (execute_symbol cfg e' s'' smb st)) = active_positions s''
          \<and> cooldowns (final_state (execute_symbol cfg e' s'' smb st)) = cooldowns s''
          \<and> trade_log (final_state (execute_symbol cfg e' s'' smb st)) = trade_log s''"
  proof (intro allI impI)
    fix cfg :: config and e' :: env and st :: pydict and s'' :: system
    assume a: "cooldowns s'' smb = cooldowns s' smb \<and> now e' < now e + minutes 5"
    then have c: "cooldowns s'' smb = Some (now e + minutes 5)" and t: "now e' < now e + minutes 5"
      using cd by simp_all
    have "in_cooldown e' s'' smb"
      using c t by (simp add: in_cooldown_def)
    then show "in_cooldown e' s'' smb
          \<and> active_positions (final_state (execute_symbol cfg e' s'' smb st)) = active_positions s''
          \<and> cooldowns (final_state (execute_symbol cfg e' s'' smb st)) = cooldowns s''
          \<and> trade_log (final_state (execute_symbol cfg e' s'' smb st)) = trade_log s''"
      using execute_symbol_in_cooldown [OF c t] by simp
  qed
  have expired: "\<forall>e'. now e + minutes 5 \<le> now e' \<longrightarrow> \<not> in_cooldown e' s' smb"
    using cd by (simp add: in_cooldown_def)
  have permitted: "\<forall>cfg e' st r h. now e + minutes 5 \<le> now e'
            \<and> calculate_ev_for_symbol cfg (signals s') (ev_history s') (lev_draw e') smb st
                = Inr (Some r, h)
            \<and> \<not> circuit_breaker_active (risk s') \<and> - 0.05 \<le> res_EV r
            \<and> base_threshold cfg < res_EV r \<longrightarrow>
          execute_symbol cfg e' s' smb st =
            Inr (enter_position e' (s'\<lparr>ev_history := h\<rparr>) smb r
                   (recommended_leverage r) (kelly_position r))
          \<and> map_of (active_positions (final_state (execute_symbol cfg e' s' smb st))) smb
              \<noteq> None"
  proof (intro allI impI)
    fix cfg :: config and e' :: env and st :: pydict and r :: ev_result
      and h :: "trade_history_entry list"
    assume a: "now e + minutes 5 \<le> now e'
            \<and> calculate_ev_for_symbol cfg (signals s') (ev_history s') (lev_draw e') smb st
                = Inr (Some r, h)
            \<and> \<not> circuit_breaker_active (risk s') \<and> - 0.05 \<le> res_EV r
            \<and> base_threshold cfg < res_EV r"
    then have nc: "\<not> in_cooldown e' s' smb"
      using expired by simp
    have ex: "execute_symbol cfg e' s' smb st =
            Inr (enter_position e' (s'\<lparr>ev_history := h\<rparr>) smb r
                   (recommended_leverage r) (kelly_position r))"
      using execute_symbol_entry [where cfg = cfg and s = s' and e = e' and smb = smb and st = st
          and r = r and h = h] a nc fl
      by simp
    show "execute_symbol cfg e' s' smb st =
            Inr (enter_position e' (s'\<lparr>ev_history := h\<rparr>) smb r
                   (recommended_leverage r) (kelly_position r))
          \<and> map_of (active_positions (final_state (execute_symbol cfg e' s' smb st))) smb
              \<noteq> None"
      using ex by (simp add: final_state_def enter_position_open)
  qed
  from cd fl blocked expired permitted show ?thesis
    by (intro conjI)
qed

lemma example_exited_eq:
  "example_exited =
     \<lparr>signals = example_signals, ev_history = [], risk = risk_init,
      active_positions = [], cooldowns = [''BTCUSDT'' \<mapsto> minutes 5],
      trade_log = []\<rparr>"
  by (simp add: example_exited_def exit_position_def example_system_def example_env_def)

lemma example_result_fields:
  "res_EV example_result = 3.1284" "p_win example_result = 5 / 6"
  "recommended_leverage example_result = 90" "kelly_position example_result = 0.25"
  "other_keys example_result = Map.empty" "components example_result = []"
  by (simp_all add: example_result_def)

lemma example_config_fields:
  "base_threshold example_config = 0.05" "daily_drawdown_limit_pct example_config = 0.1"
  "margin_health_threshold example_config = 0.2"
  by (simp_all add: example_config_def)

theorem exit_sets_cooldown_blocking_entry_witness:
  "map_of (active_positions example_system) ''BTCUSDT'' = Some example_position
   \<and> cooldowns example_exited ''BTCUSDT'' = Some (minutes 5)
   \<and> in_cooldown (example_env (minutes 3)) example_exited ''BTCUSDT''
   \<and> active_positions (final_state (execute_symbol example_config (example_env (minutes 3))
                                       example_exited ''BTCUSDT'' example_market)) = []
   \<and> \<not> in_cooldown (example_env (minutes 5)) example_exited ''BTCUSDT''
   \<and> execute_symbol example_config (example_env (minutes 5)) example_exited ''BTCUSDT''
         example_market =
       Inr (enter_position (example_env (minutes 5))
              (example_exited\<lparr>ev_history := [example_recorded]\<rparr>) ''BTCUSDT'' example_result
              90 0.25)"
proof -
  have a: "map_of (active_positions example_system) ''BTCUSDT'' = Some example_position"
    by (simp add: example_system_def)
  note th = exit_sets_cooldown_blocking_entry [OF a example_exited_def]
  have n0: "now (example_env 0) + minutes 5 = minutes 5"
    by (simp add: example_env_def)
  from th have c1: "cooldowns example_exited ''BTCUSDT'' = Some (minutes 5)"
    using n0 by simp
  have b: "cooldowns example_exited ''BTCUSDT'' = cooldowns example_exited ''BTCUSDT''
           \<and> now (example_env (minutes 3)) < now (example_env 0) + minutes 5"
    by (simp add: example_env_def minutes_def)
  from th b have c2: "in_cooldown (example_env (minutes 3)) example_exited ''BTCUSDT''
      \<and> active_positions (final_state (execute_symbol example_config (example_env (minutes 3))
                                       example_exited ''BTCUSDT'' example_market))
         = active_positions example_exited"
    by blast
  have t5: "now (example_env 0) + minutes 5 \<le> now (example_env (minutes 5))"
    by (simp add: example_env_def)
  from th t5 have c3: "\<not> in_cooldown (example_env (minutes 5)) example_exited ''BTCUSDT''"
    by blast
  have p: "now (example_env 0) + minutes 5 \<le> now (example_env (minutes 5))
            \<and> calculate_ev_for_symbol example_config (signals example_exited)
                 (ev_history example_exited) (lev_draw (example_env (minutes 5)))
                 ''BTCUSDT'' example_market
                = Inr (Some example_result, [example_recorded])
            \<and> \<not> circuit_breaker_active (risk example_exited) \<and> - 0.05 \<le> res_EV example_result
            \<and> base_threshold example_config < res_EV example_result"
    by (simp add: example_exited_eq example_env_def example_calculate_ev risk_init_def
          example_result_fields example_config_fields)
  from th p have c4: "execute_symbol example_config (example_env (minutes 5)) example_exited
         ''BTCUSDT'' example_market =
       Inr (enter_position (example_env (minutes 5))
              (example_exited\<lparr>ev_history := [example_recorded]\<rparr>) ''BTCUSDT'' example_result
              (recommended_leverage example_result) (kelly_position example_result))"
    by blast
  have e: "active_positions example_exited = []"
    "recommended_leverage example_result = 90" "kelly_position example_result = 0.25"
    by (simp_all add: example_exited_eq example_result_fields)
  from a c1 c2 c3 c4 show ?thesis
    unfolding e by (intro conjI) simp_all
qed

subsection \<open>Rotation\<close>

lemma maybe_rotate_without_ev_entry:
  "other_keys r ''ev_entry'' = None \<Longrightarrow> maybe_rotate e s smb r = Inl KeyError"
  by (simp add: maybe_rotate_def dict_index_def split: option.splits)

lemma maybe_exit_returns:
  "map_of (active_positions s) smb = Some pos \<Longrightarrow> \<exists>s'. maybe_exit e s smb r = Inr s'"
  by (simp add: maybe_exit_def Let_def)

lemma execute_symbol_open_raises:
  assumes c: "calculate_ev_for_symbol cfg (signals s) (ev_history s) (lev_draw e) smb st
             = Inr (Some r, h)"
    and k: "check_risk e (risk s) smb (res_EV r) = Inr (True, r1)"
    and n: "\<not> in_cooldown e s smb"
    and p: "map_of (active_positions s) smb = Some pos"
  shows "\<exists>s3. maybe_exit e (s\<lparr>ev_history := h, risk := r1\<rparr>) smb r = Inr s3
              \<and> execute_symbol cfg e s smb st = Inl (KeyError, s3)"
proof -
  have ok: "other_keys r ''ev_entry'' = None"
    using calculate_ev_some [OF c] by simp
  have p': "map_of (active_positions (s\<lparr>ev_history := h, risk := r1\<rparr>)) smb = Some pos"
    using p by simp
  obtain s3 where s3: "maybe_exit e (s\<lparr>ev_history := h, risk := r1\<rparr>) smb r = Inr s3"
    using maybe_exit_returns [OF p'] by blast
  have n': "\<not> in_cooldown e (s\<lparr>ev_history := h, risk := r1\<rparr>) smb"
    using n by (simp add: in_cooldown_def)
  show ?thesis
    using c k n' p' s3 maybe_rotate_without_ev_entry [OF ok]
    by (simp add: execute_symbol_def Let_def)
qed

lemma example_maybe_exit:
  "maybe_exit (example_env (minutes 1)) (example_system\<lparr>ev_history := [example_recorded]\<rparr>)
      ''BTCUSDT'' example_result = Inr (example_system\<lparr>ev_history := [example_recorded]\<rparr>)"
  by (simp add: maybe_exit_def example_system_def example_env_def example_result_fields
        example_position_def minutes_def hours_def position_profitable_def Let_def)

text \<open>
  Claim C1, evaluated on the code. The example state has one open position with entry
  EV 0.1; the EV engine computes the EV 3.1284 for the symbol, which is at least the
  entry EV of the position and at least 80 percent of the maximum entry EV of the open
  positions. The pass does not close and reopen the position: the rotation step
  raises \<open>KeyError\<close>, because it reads the key \<open>ev_entry\<close> of the EV result, a
  dictionary that has no such key, and the exception ends the cycle.
\<close>

theorem rotation_raises_key_error:
  "map_of (active_positions example_system) ''BTCUSDT'' = Some example_position
   \<and> calculate_ev_for_symbol example_config (signals example_system)
        (ev_history example_system) 0 ''BTCUSDT'' example_market
       = Inr (Some example_result, [example_recorded])
   \<and> ev_entry example_position \<le> res_EV example_result
   \<and> py_max (map (\<lambda>kv. ev_entry (snd kv)) (active_positions example_system)) = Inr 0.1
   \<and> 0.8 * 0.1 \<le> res_EV example_result
   \<and> execute_symbol example_config (example_env (minutes 1)) example_system ''BTCUSDT''
        example_market
       = Inl (KeyError, example_system\<lparr>ev_history := [example_recorded]\<rparr>)"
proof -
  have a: "map_of (active_positions example_system) ''BTCUSDT'' = Some example_position"
    by (simp add: example_system_def)
  have c: "calculate_ev_for_symbol example_config (signals example_system)
        (ev_history example_system) (lev_draw (example_env (minutes 1))) ''BTCUSDT''
        example_market = Inr (Some example_result, [example_recorded])"
    by (simp add: example_system_def example_env_def example_calculate_ev)
  have k: "check_risk (example_env (minutes 1)) (risk example_system) ''BTCUSDT''
             (res_EV example_result) = Inr (True, risk example_system)"
    by (simp add: check_risk_armed example_system_def risk_init_def example_result_fields)
  have n: "\<not> in_cooldown (example_env (minutes 1)) example_system ''BTCUSDT''"
    by (simp add: in_cooldown_def example_system_def)
  have r: "example_system\<lparr>ev_history := [example_recorded], risk := risk example_system\<rparr>
           = example_system\<lparr>ev_history := [example_recorded]\<rparr>"
    by simp
  from execute_symbol_open_raises [OF c k n a]
  have x: "execute_symbol example_config (example_env (minutes 1)) example_system ''BTCUSDT''
        example_market = Inl (KeyError, example_system\<lparr>ev_history := [example_recorded]\<rparr>)"
    unfolding r by (simp add: example_maybe_exit)
  have m: "py_max (map (\<lambda>kv. ev_entry (snd kv)) (active_positions example_system)) = Inr 0.1"
    by (simp add: py_max_def example_system_def example_position_def)
  have v: "ev_entry example_position \<le> res_EV example_result"
    "0.8 * 0.1 \<le> res_EV example_result"
    by (simp_all add: example_position_def example_result_fields)
  have c0: "calculate_ev_for_symbol example_config (signals example_system)
        (ev_history example_system) 0 ''BTCUSDT'' example_market
       = Inr (Some example_result, [example_recorded])"
    by (simp add: example_system_def example_calculate_ev)
  from a c0 v m x show ?thesis
    by (intro conjI)
qed

lemma exit_position_trade_log: "trade_log (exit_position e s smb reason) = trade_log s"
  by (simp add: exit_position_def split: option.splits)

lemma maybe_exit_trade_log: "maybe_exit e s smb r = Inr s' \<Longrightarrow> trade_log s' = trade_log s"
  by (auto simp add: maybe_exit_def Let_def exit_position_trade_log split: option.splits)

lemma execute_symbol_open_trade_log:
  assumes "map_of (active_positions s) smb = Some pos"
  shows "trade_log (final_state (execute_symbol cfg e s smb st)) = trade_log s"
proof (cases "calculate_ev_for_symbol cfg (signals s) (ev_history s) (lev_draw e) smb st")
  case (Inl err)
  then show ?thesis
    by (simp add: execute_symbol_def final_state_def)
next
  case (Inr v)
  obtain ro h where v: "v = (ro, h)"
    by (cases v)
  show ?thesis
  proof (cases ro)
    case None
    then show ?thesis
      using Inr v by (simp add: execute_symbol_def final_state_def)
  next
    case (Some r)
    have k: "other_keys r ''ev_entry'' = None"
      using calculate_ev_some [of cfg "signals s" "ev_history s" "lev_draw e" smb st r h]
        Inr v Some
      by simp
    show ?thesis
      using Inr v Some assms maybe_rotate_without_ev_entry [OF k]
      by (auto simp add: execute_symbol_def final_state_def Let_def maybe_exit_trade_log
            split: sum.splits prod.splits)
  qed
qed

text \<open>
  Claim C3, evaluated on the code. In a pass of the cycle for a symbol with an open
  position no order is placed, so no rotation fires, whatever the number of open
  positions. But the rotation check is not a no-op: on every result the EV engine
  returns it raises \<open>KeyError\<close> (the lookup of \<open>ev_entry\<close> in the EV result, as in
  claim C1), and a pass that reaches it, with the risk check passed and no cooldown,
  ends in that exception. The example state has exactly one open position.
\<close>

theorem rotation_check_raises_in_cycle:
  assumes "map_of (active_positions s) smb = Some pos"
  shows "trade_log (final_state (execute_symbol cfg e s smb st)) = trade_log s
       \<and> (\<forall>r h s1. calculate_ev_for_symbol cfg (signals s) (ev_history s) (lev_draw e) smb st
                      = Inr (Some r, h) \<longrightarrow>
            maybe_rotate e s1 smb r = Inl KeyError)
       \<and> (\<forall>r h r1. calculate_ev_for_symbol cfg (signals s) (ev_history s) (lev_draw e) smb st
                      = Inr (Some r, h)
              \<and> check_risk e (risk s) smb (res_EV r) = Inr (True, r1)
              \<and> \<not> in_cooldown e s smb \<longrightarrow>
            (\<exists>s3. execute_symbol cfg e s smb st = Inl (KeyError, s3)))"
proof -
  have A: "trade_log (final_state (execute_symbol cfg e s smb st)) = trade_log s"
    using execute_symbol_open_trade_log [OF assms] .
  have B: "\<forall>r h s1. calculate_ev_for_symbol cfg (signals s) (ev_history s) (lev_draw e) smb st
                      = Inr (Some r, h) \<longrightarrow>
            maybe_rotate e s1 smb r = Inl KeyError"
  proof (intro allI impI)
    fix r :: ev_result and h :: "trade_history_entry list" and s1 :: system
    assume c: "calculate_ev_for_symbol cfg (signals s) (ev_history s) (lev_draw e) smb st
                      = Inr (Some r, h)"
    have "other_keys r ''ev_entry'' = None"
      using calculate_ev_some [OF c] by simp
    then show "maybe_rotate e s1 smb r = Inl KeyError"
      by (rule maybe_rotate_without_ev_entry)
  qed
  have C: "\<forall>r h r1. calculate_ev_for_symbol cfg (signals s) (ev_history s) (lev_draw e) smb st
                      = Inr (Some r, h)
              \<and> check_risk e (risk s) smb (res_EV r) = Inr (True, r1)
              \<and> \<not> in_cooldown e s smb \<longrightarrow>
            (\<exists>s3. execute_symbol cfg e s smb st = Inl (KeyError, s3))"
    using execute_symbol_open_raises [where pos = pos] assms by blast
  from A B C show ?thesis
    by (intro conjI)
qed

theorem rotation_check_raises_in_cycle_witness:
  "length (active_positions example_system) = 1
   \<and> map_of (active_positions example_system) ''BTCUSDT'' = Some example_position
   \<and> trade_log (final_state (execute_symbol example_config (example_env (minutes 1))
                                example_system ''BTCUSDT'' example_market)) = []
   \<and> maybe_rotate (example_env (minutes 1)) example_system ''BTCUSDT'' example_result
       = Inl KeyError
   \<and> (\<exists>s3. execute_symbol example_config (example_env (minutes 1)) example_system
               ''BTCUSDT'' example_market = Inl (KeyError, s3))"
proof -
  have l: "length (active_positions example_system) = 1"
    by (simp add: example_system_def)
  have a: "map_of (active_positions example_system) ''BTCUSDT'' = Some example_position"
    by (simp add: example_system_def)
  note th = rotation_check_raises_in_cycle [OF a, of example_config "example_env (minutes 1)"
      example_market]
  have t: "trade_log example_system = []"
    by (simp add: example_system_def)
  from th have x: "trade_log (final_state (execute_symbol example_config
      (example_env (minutes 1)) example_system ''BTCUSDT'' example_market)) = []"
    unfolding t by blast
  have c: "calculate_ev_for_symbol example_config (signals example_system)
        (ev_history example_system) (lev_draw (example_env (minutes 1))) ''BTCUSDT''
        example_market = Inr (Some example_result, [example_recorded])"
    by (simp add: example_system_def example_env_def example_calculate_ev)
  have k: "check_risk (example_env (minutes 1)) (risk example_system) ''BTCUSDT''
             (res_EV example_result) = Inr (True, risk example_system)"
    by (simp add: check_risk_armed example_system_def risk_init_def example_result_fields)
  have n: "\<not> in_cooldown (example_env (minutes 1)) example_system ''BTCUSDT''"
    by (simp add: in_cooldown_def example_system_def)
  from th c have y: "maybe_rotate (example_env (minutes 1)) example_system ''BTCUSDT''
      example_result = Inl KeyError"
    by blast
  from th c k n have z: "\<exists>s3. execute_symbol example_config (example_env (minutes 1))
      example_system ''BTCUSDT'' example_market = Inl (KeyError, s3)"
    by blast
  from l a x y z show ?thesis
    by (intro conjI)
qed

subsection \<open>The risk gate of an entry\<close>

lemma example_pre_trade_check:
  "pre_trade_check example_config example_acct (minutes 1) (res_EV example_result) risk_init
     = (False, trigger_circuit_breaker (minutes 1) risk_init)"
  by (simp add: pre_trade_check_def check_drawdown_def example_acct_def example_config_fields
        example_result_fields risk_init_def trigger_circuit_breaker_def Let_def)

text \<open>
  Claim C2, evaluated on the code. In the example state the symbol is flat, no
  cooldown is set and the breaker is armed; the account's equity is half of its
  peak, so the drawdown of 50 percent exceeds the limit of 10 percent and
  \<open>pre_trade_check\<close> rejects the trade. The pass of the cycle opens the position all
  the same: its risk check queries the breaker and the EV floor only.
\<close>

theorem entry_without_pre_trade_check:
  "map_of (active_positions example_flat) ''BTCUSDT'' = None
   \<and> acct (example_env (minutes 1)) = example_acct
   \<and> fst (pre_trade_check example_config example_acct (minutes 1) (res_EV example_result)
            (risk example_flat)) = False
   \<and> execute_symbol example_config (example_env (minutes 1)) example_flat ''BTCUSDT''
        example_market
       = Inr \<lparr>signals = example_signals, ev_history = [example_recorded], risk = risk_init,
              active_positions =
                [(''BTCUSDT'',
                  \<lparr>entry_time = minutes 1, entry_price = 0, leverage = 90, notional = 22500,
                   ev_entry = 3.1284, direction = BUY, is_open = True\<rparr>)],
              cooldowns = Map.empty,
              trade_log =
                [\<lparr>ord_symbol = ''BTCUSDT'', ord_side = BUY, ord_size = 22500,
                  ord_leverage = 90, ord_timestamp = minutes 1\<rparr>]\<rparr>"
proof -
  have a: "map_of (active_positions example_flat) ''BTCUSDT'' = None"
    by (simp add: example_flat_def)
  have b: "acct (example_env (minutes 1)) = example_acct"
    by (simp add: example_env_def)
  have p: "fst (pre_trade_check example_config example_acct (minutes 1) (res_EV example_result)
            (risk example_flat)) = False"
    by (simp add: example_flat_def example_pre_trade_check)
  have c: "calculate_ev_for_symbol example_config (signals example_flat)
        (ev_history example_flat) (lev_draw (example_env (minutes 1))) ''BTCUSDT''
        example_market = Inr (Some example_result, [example_recorded])"
    by (simp add: example_flat_def example_env_def example_calculate_ev)
  have n: "\<not> circuit_breaker_active (risk example_flat)"
    by (simp add: example_flat_def risk_init_def)
  have v: "- 0.05 \<le> res_EV example_result" "base_threshold example_config < res_EV example_result"
    by (simp_all add: example_result_fields example_config_fields)
  have k: "\<not> in_cooldown (example_env (minutes 1)) example_flat ''BTCUSDT''"
    by (simp add: in_cooldown_def example_flat_def)
  from execute_symbol_entry [OF c n v(1) k a v(2)]
  have x: "execute_symbol example_config (example_env (minutes 1)) example_flat ''BTCUSDT''
        example_market
       = Inr (enter_position (example_env (minutes 1))
                (example_flat\<lparr>ev_history := [example_recorded]\<rparr>) ''BTCUSDT'' example_result
                (recommended_leverage example_result) (kelly_position example_result))" .
  have y: "enter_position (example_env (minutes 1))
                (example_flat\<lparr>ev_history := [example_recorded]\<rparr>) ''BTCUSDT'' example_result
                (recommended_leverage example_result) (kelly_position example_result)
        = \<lparr>signals = example_signals, ev_history = [example_recorded], risk = risk_init,
              active_positions =
                [(''BTCUSDT'',
                  \<lparr>entry_time = minutes 1, entry_price = 0, leverage = 90, notional = 22500,
                   ev_entry = 3.1284, direction = BUY, is_open = True\<rparr>)],
              cooldowns = Map.empty,
              trade_log =
                [\<lparr>ord_symbol = ''BTCUSDT'', ord_side = BUY, ord_size = 22500,
                  ord_leverage = 90, ord_timestamp = minutes 1\<rparr>]\<rparr>"
    by (simp add: enter_position_def mock_order_def example_flat_def example_env_def
          example_acct_def example_result_fields Let_def)
  from a b p x show ?thesis
    unfolding y by (intro conjI)
qed

subsection \<open>Degenerate arithmetic\<close>

lemma dynamic_kelly_zero_loss: "dynamic_kelly p G 0 = Inr (clip (2 * p - 1) 0 0.25)"
  by (simp add: dynamic_kelly_def Let_def mult.commute)

lemma check_drawdown_zero_peak:
  "equity_peak a = 0 \<Longrightarrow>
     check_drawdown cfg a t r =
       (if 0 > daily_drawdown_limit_pct cfg then (False, trigger_circuit_breaker t r)
        else (True, r))"
  by (simp add: check_drawdown_def Let_def)

lemma risk_heat_total: "\<exists>h. risk_heat r = Inr h \<and> 0 \<le> h \<and> h \<le> 1"
proof (cases "drawdown_history r")
  case Nil
  then show ?thesis
    by (simp add: risk_heat_def)
next
  case (Cons x xs)
  then have "\<not> length (drawdown_history r) \<le> length (drawdown_history r) - 10"
    by simp
  then show ?thesis
    using Cons by (simp add: risk_heat_def Let_def)
qed

text \<open>
  Claim C4, evaluated on the code. A market state whose depth score is 0 makes the
  loss estimator divide by zero: \<open>estimate_loss\<close> raises \<open>ZeroDivisionError\<close>, and
  so do the EV evaluation and the cycle. (The other three divisions are guarded:
  \<open>dynamic_kelly_zero_loss\<close>, \<open>check_drawdown_zero_peak\<close>, \<open>risk_heat_total\<close>.)
\<close>

theorem loss_estimator_divides_by_zero_depth:
  "estimate_loss [''depth_score'' \<mapsto> 0] = Inl ZeroDivisionError
   \<and> calculate_ev_for_symbol example_config example_signals [] 0 ''BTCUSDT''
        [''depth_score'' \<mapsto> 0] = Inl ZeroDivisionError
   \<and> execute_cycle example_config example_flat
        [(''BTCUSDT'', [''depth_score'' \<mapsto> 0], example_env 0)]
       = Inl (ZeroDivisionError, example_flat)"
proof -
  have l: "estimate_loss [''depth_score'' \<mapsto> 0] = Inl ZeroDivisionError"
    by (simp add: estimate_loss_def dict_get_def Let_def)
  have pr: "0 < beta_alpha example_config" "0 < beta_beta example_config"
    by (simp_all add: example_config_def)
  obtain p where p: "estimate_probability example_config [] ''BTCUSDT''
      (signal_score example_signal) [''depth_score'' \<mapsto> 0] = Inr p"
    using estimate_probability_total [OF pr] by blast
  have c: "calculate_ev_for_symbol example_config example_signals [] 0 ''BTCUSDT''
        [''depth_score'' \<mapsto> 0] = Inl ZeroDivisionError"
    using p l
    by (simp add: calculate_ev_for_symbol_def get_signal_def example_signals_def Let_def)
  have x: "execute_cycle example_config example_flat
        [(''BTCUSDT'', [''depth_score'' \<mapsto> 0], example_env 0)]
       = Inl (ZeroDivisionError, example_flat)"
    using c by (simp add: execute_symbol_def example_flat_def example_env_def)
  from l c x show ?thesis
    by (intro conjI)
qed

end
